theory Spec2Isabelle
  imports Main
begin

section \<open>JavaScript values used by the picker\<close>

text \<open>
  Strings are byte strings: an ASCII character is one \<open>char\<close>, any other code point is
  the sequence of its UTF-8 bytes. \<open>undefined\<close> and \<open>null\<close> are both \<open>None\<close>.
\<close>

record FieldSet =
  host :: "string option"
  owner :: "string option"
  repo :: "string option"
  organization :: "string option"
  workspace :: "string option"
  project :: "string option"

definition truthy :: "string option \<Rightarrow> bool" where
  \<comment> \<open>JavaScript truthiness of a \<open>string | undefined | null\<close> value.\<close>
  "truthy v = (case v of None \<Rightarrow> False | Some s \<Rightarrow> s \<noteq> [])"

definition js_or :: "string option \<Rightarrow> string option \<Rightarrow> string option" where
  \<comment> \<open>\<open>a || b\<close>\<close>
  "js_or a b = (if truthy a then a else b)"

definition first_of :: "string list option \<Rightarrow> string option" where
  \<comment> \<open>\<open>allowedOwners?.[0]\<close>: undefined for a missing or an empty array.\<close>
  "first_of xs = (case xs of None \<Rightarrow> None | Some [] \<Rightarrow> None | Some (x # _) \<Rightarrow> Some x)"

definition all_absent :: FieldSet where
  "all_absent = \<lparr>host = None, owner = None, repo = None, organization = None,
                 workspace = None, project = None\<rparr>"

section \<open>The platform: percent-encoding and URLSearchParams\<close>

definition hex_digit :: "nat \<Rightarrow> char" where
  \<comment> \<open>Upper-case hexadecimal digit of a value below 16.\<close>
  "hex_digit d = (if d < 10 then char_of (48 + d) else char_of (55 + d))"

definition hex_val :: "char \<Rightarrow> nat option" where
  "hex_val c =
     (let n = (of_char c :: nat) in
      if 48 \<le> n \<and> n \<le> 57 then Some (n - 48)
      else if 65 \<le> n \<and> n \<le> 70 then Some (n - 55)
      else if 97 \<le> n \<and> n \<le> 102 then Some (n - 87)
      else None)"

definition percent_encode_byte :: "char \<Rightarrow> string" where
  "percent_encode_byte c =
     [CHR ''%'', hex_digit ((of_char c :: nat) div 16), hex_digit ((of_char c :: nat) mod 16)]"

fun percent_decode :: "string \<Rightarrow> string" where
  "percent_decode [] = []"
| "percent_decode (c # cs) =
     (if c = CHR ''%'' then
        (case cs of
           h1 # h2 # rest \<Rightarrow>
             (case (hex_val h1, hex_val h2) of
                (Some a, Some b) \<Rightarrow> char_of (a * 16 + b) # percent_decode rest
              | _ \<Rightarrow> c # percent_decode cs)
         | _ \<Rightarrow> c # percent_decode cs)
      else c # percent_decode cs)"

definition is_alnum :: "char \<Rightarrow> bool" where
  "is_alnum c =
     (let n = (of_char c :: nat) in
      (48 \<le> n \<and> n \<le> 57) \<or> (65 \<le> n \<and> n \<le> 90) \<or> (97 \<le> n \<and> n \<le> 122))"

definition urlencoded_unreserved :: "char \<Rightarrow> bool" where
  \<comment> \<open>The bytes outside the application/x-www-form-urlencoded percent-encode set.\<close>
  "urlencoded_unreserved c =
     (is_alnum c \<or> c = CHR ''*'' \<or> c = CHR ''-'' \<or> c = CHR ''.'' \<or> c = CHR ''_'')"

definition urlencoded_encode_byte :: "char \<Rightarrow> string" where
  \<comment> \<open>Percent-encode after encoding, with space as plus.\<close>
  "urlencoded_encode_byte c =
     (if c = CHR '' '' then [CHR ''+'']
      else if urlencoded_unreserved c then [c]
      else percent_encode_byte c)"

definition urlencoded_encode :: "string \<Rightarrow> string" where
  "urlencoded_encode s = concat (map urlencoded_encode_byte s)"

type_synonym URLSearchParams = "(string \<times> string) list"

fun URLSearchParams_set :: "URLSearchParams \<Rightarrow> string \<Rightarrow> string \<Rightarrow> URLSearchParams" where
  \<comment> \<open>Overwrite the first tuple of that name and drop the others; append when there is none.\<close>
  "URLSearchParams_set [] n v = [(n, v)]"
| "URLSearchParams_set ((k, w) # ps) n v =
     (if k = n then (n, v) # filter (\<lambda>p. fst p \<noteq> n) ps
      else (k, w) # URLSearchParams_set ps n v)"

fun URLSearchParams_get :: "URLSearchParams \<Rightarrow> string \<Rightarrow> string option" where
  \<comment> \<open>The value of the first tuple of that name, or null.\<close>
  "URLSearchParams_get [] n = None"
| "URLSearchParams_get ((k, w) # ps) n = (if k = n then Some w else URLSearchParams_get ps n)"

fun join_amp :: "string list \<Rightarrow> string" where
  "join_amp [] = []"
| "join_amp [x] = x"
| "join_amp (x # y # ys) = x @ CHR ''&'' # join_amp (y # ys)"

definition URLSearchParams_toString :: "URLSearchParams \<Rightarrow> string" where
  \<comment> \<open>The application/x-www-form-urlencoded serializer.\<close>
  "URLSearchParams_toString ps =
     join_amp (map (\<lambda>(n, v). urlencoded_encode n @ CHR ''='' # urlencoded_encode v) ps)"

section \<open>The encoder\<close>

definition set_if :: "string \<Rightarrow> string option \<Rightarrow> URLSearchParams \<Rightarrow> URLSearchParams" where
  \<comment> \<open>\<open>if (data.f) { params.set('f', data.f); }\<close>\<close>
  "set_if name v params =
     (case v of
        None \<Rightarrow> params
      | Some s \<Rightarrow> if s \<noteq> [] then URLSearchParams_set params name s else params)"

definition form_params :: "FieldSet \<Rightarrow> URLSearchParams" where
  \<comment> \<open>\<open>new URLSearchParams()\<close> after the five conditional \<open>params.set\<close> calls.\<close>
  "form_params data =
     (let params = [];
          params = set_if ''owner'' (owner data) params;
          params = set_if ''repo'' (repo data) params;
          params = set_if ''organization'' (organization data) params;
          params = set_if ''workspace'' (workspace data) params;
          params = set_if ''project'' (project data) params
      in params)"

definition serializeFormData :: "FieldSet \<Rightarrow> string option" where
  "serializeFormData data =
     (if \<not> truthy (host data) then None
      else Some (the (host data) @ CHR ''?'' # URLSearchParams_toString (form_params data)))"

section \<open>The platform: the URL parser\<close>

text \<open>
  \<open>new URL(input)\<close> follows the WHATWG URL parser, for the inputs the decoder builds
  (\<open>https://\<close> followed by the serialized value): credentials, host, port and query.
  Two parts of the platform are parameters of the model, gathered in a \<open>Platform\<close>:
  Unicode ToASCII (IDNA processing), which the host parser runs on every domain that has
  a byte outside ASCII or a label with the \<open>xn--\<close> prefix, and the IPv6 parser, which
  it runs on a host in brackets. Every property below holds for all such platforms.
\<close>

datatype error = TypeError

record URL =
  url_host :: string
  searchParams :: URLSearchParams

subsection \<open>UTF-8 decoding with replacement\<close>

definition replacement :: string where
  \<comment> \<open>U+FFFD in UTF-8.\<close>
  "replacement = [char_of (0xEF::nat), char_of (0xBF::nat), char_of (0xBD::nat)]"

record utf8_state =
  pending :: string
  needed :: nat
  lower :: nat
  upper :: nat

definition utf8_init :: utf8_state where
  "utf8_init = \<lparr>pending = [], needed = 0, lower = 0x80, upper = 0xBF\<rparr>"

definition utf8_lead :: "char \<Rightarrow> string \<times> utf8_state" where
  \<comment> \<open>The decoder's handler when no bytes are needed.\<close>
  "utf8_lead b =
     (let n = (of_char b :: nat) in
      if n \<le> 0x7F then ([b], utf8_init)
      else if 0xC2 \<le> n \<and> n \<le> 0xDF then
        ([], \<lparr>pending = [b], needed = 1, lower = 0x80, upper = 0xBF\<rparr>)
      else if 0xE0 \<le> n \<and> n \<le> 0xEF then
        ([], \<lparr>pending = [b], needed = 2,
              lower = (if n = 0xE0 then 0xA0 else 0x80),
              upper = (if n = 0xED then 0x9F else 0xBF)\<rparr>)
      else if 0xF0 \<le> n \<and> n \<le> 0xF4 then
        ([], \<lparr>pending = [b], needed = 3,
              lower = (if n = 0xF0 then 0x90 else 0x80),
              upper = (if n = 0xF4 then 0x8F else 0xBF)\<rparr>)
      else (replacement, utf8_init))"

definition utf8_step :: "utf8_state \<Rightarrow> char \<Rightarrow> string \<times> utf8_state" where
  "utf8_step st b =
     (let n = (of_char b :: nat) in
      if needed st = 0 then utf8_lead b
      else if n < lower st \<or> upper st < n then
        (replacement @ fst (utf8_lead b), snd (utf8_lead b))
      else if needed st = 1 then (pending st @ [b], utf8_init)
      else ([], \<lparr>pending = pending st @ [b], needed = needed st - 1,
                 lower = 0x80, upper = 0xBF\<rparr>))"

fun utf8_run :: "utf8_state \<Rightarrow> string \<Rightarrow> string" where
  "utf8_run st [] = (if needed st \<noteq> 0 then replacement else [])"
| "utf8_run st (b # bs) = fst (utf8_step st b) @ utf8_run (snd (utf8_step st b)) bs"

definition utf8_decode :: "string \<Rightarrow> string" where
  \<comment> \<open>UTF-8 decode without BOM: ill-formed sequences become U+FFFD.\<close>
  "utf8_decode s = utf8_run utf8_init s"

subsection \<open>The application/x-www-form-urlencoded parser\<close>

fun split_on :: "char \<Rightarrow> string \<Rightarrow> string list" where
  \<comment> \<open>Strict splitting: \<open>n\<close> delimiters give \<open>n + 1\<close> items.\<close>
  "split_on d [] = [[]]"
| "split_on d (c # cs) =
     (if c = d then [] # split_on d cs
      else (case split_on d cs of
              [] \<Rightarrow> [[c]]
            | p # ps \<Rightarrow> (c # p) # ps))"

definition plus_to_space :: "string \<Rightarrow> string" where
  "plus_to_space s = map (\<lambda>c. if c = CHR ''+'' then CHR '' '' else c) s"

definition urlencoded_decode :: "string \<Rightarrow> string" where
  "urlencoded_decode s = utf8_decode (percent_decode (plus_to_space s))"

definition urlencoded_pair :: "string \<Rightarrow> string \<times> string" where
  \<comment> \<open>Name and value of one sequence: split at the first \<open>=\<close>.\<close>
  "urlencoded_pair s =
     (let n = takeWhile (\<lambda>c. c \<noteq> CHR ''='') s;
          r = dropWhile (\<lambda>c. c \<noteq> CHR ''='') s
      in (urlencoded_decode n, urlencoded_decode (case r of [] \<Rightarrow> [] | _ # v \<Rightarrow> v)))"

definition urlencoded_parse :: "string \<Rightarrow> URLSearchParams" where
  "urlencoded_parse q = map urlencoded_pair (filter (\<lambda>s. s \<noteq> []) (split_on CHR ''&'' q))"

subsection \<open>Hosts\<close>

definition is_digit :: "char \<Rightarrow> bool" where
  "is_digit c = (48 \<le> (of_char c :: nat) \<and> (of_char c :: nat) \<le> 57)"

definition ascii_lower :: "char \<Rightarrow> char" where
  "ascii_lower c =
     (let n = (of_char c :: nat) in if 65 \<le> n \<and> n \<le> 90 then char_of (n + 32) else c)"

definition forbidden_domain :: "char \<Rightarrow> bool" where
  \<comment> \<open>Forbidden domain code points: the forbidden host code points, C0 controls,
      \<open>%\<close> and U+007F.\<close>
  "forbidden_domain c =
     ((of_char c :: nat) \<le> 0x20 \<or> (of_char c :: nat) = 0x7F \<or>
      c \<in> set (CHR 0x5C # ''#/:<>?@[]^|%''))"

fun digits_value :: "nat \<Rightarrow> nat \<Rightarrow> string \<Rightarrow> nat option" where
  \<comment> \<open>The value of a string of radix-\<open>r\<close> digits, read after the accumulator.\<close>
  "digits_value r acc [] = Some acc"
| "digits_value r acc (c # cs) =
     (case hex_val c of
        None \<Rightarrow> None
      | Some d \<Rightarrow> if d < r then digits_value r (acc * r + d) cs else None)"

definition ipv4_number :: "string \<Rightarrow> nat option" where
  \<comment> \<open>The IPv4 number parser: \<open>0x\<close> is hexadecimal, a leading \<open>0\<close> octal.\<close>
  "ipv4_number s =
     (if s = [] then None
      else if 2 \<le> length s \<and> (take 2 s = ''0x'' \<or> take 2 s = ''0X'')
        then digits_value 16 0 (drop 2 s)
      else if 2 \<le> length s \<and> hd s = CHR ''0'' then digits_value 8 0 (tl s)
      else digits_value 10 0 s)"

definition ipv4_parts :: "string \<Rightarrow> string list" where
  \<comment> \<open>The dot-separated parts, without one trailing empty part.\<close>
  "ipv4_parts s =
     (let parts = split_on CHR ''.'' s
      in if last parts = [] \<and> 1 < length parts then butlast parts else parts)"

definition ends_in_number :: "string \<Rightarrow> bool" where
  "ends_in_number s =
     (let parts = split_on CHR ''.'' s in
      if last parts = [] \<and> length parts = 1 then False
      else (let l = last (ipv4_parts s)
            in (l \<noteq> [] \<and> list_all is_digit l) \<or> ipv4_number l \<noteq> None))"

fun decimal :: "nat \<Rightarrow> string" where
  "decimal n = (if n < 10 then [char_of (48 + n)] else decimal (n div 10) @ [char_of (48 + n mod 10)])"

declare decimal.simps [simp del]

definition ipv4_parse :: "string \<Rightarrow> nat option" where
  "ipv4_parse s =
     (let parts = ipv4_parts s in
      if 4 < length parts then None
      else if \<exists>p \<in> set parts. ipv4_number p = None then None
      else (let numbers = map (\<lambda>p. the (ipv4_number p)) parts in
            if \<exists>n \<in> set (butlast numbers). 255 < n then None
            else if 256 ^ (5 - length numbers) \<le> last numbers then None
            else Some (last numbers +
                       sum_list (map (\<lambda>(n, i). n * 256 ^ (3 - i))
                                  (zip (butlast numbers) [0 ..< length numbers - 1])))))"

definition ipv4_serialize :: "nat \<Rightarrow> string" where
  "ipv4_serialize a =
     decimal (a div 256 ^ 3 mod 256) @ CHR ''.'' # decimal (a div 256 ^ 2 mod 256) @
     CHR ''.'' # decimal (a div 256 mod 256) @ CHR ''.'' # decimal (a mod 256)"

definition has_punycode_label :: "string \<Rightarrow> bool" where
  "has_punycode_label s =
     (\<exists>l \<in> set (split_on CHR ''.'' s). map ascii_lower (take 4 l) = ''xn--'')"

text \<open>
  The platform's Unicode ToASCII, from a domain to its ASCII form or failure, and its IPv6
  parser, from the text between the brackets to the address's pieces or failure.
\<close>

record Platform =
  ToASCII :: "string \<Rightarrow> string option"
  ipv6_parser :: "string \<Rightarrow> nat list option"

fun hex_lower :: "nat \<Rightarrow> string" where
  \<comment> \<open>The shortest lower-case hexadecimal numeral.\<close>
  "hex_lower n =
     (if n < 16 then [ascii_lower (hex_digit n)]
      else hex_lower (n div 16) @ [ascii_lower (hex_digit (n mod 16))])"

declare hex_lower.simps [simp del]

fun zero_run :: "nat list \<Rightarrow> nat" where
  \<comment> \<open>The number of zero pieces at the front.\<close>
  "zero_run [] = 0"
| "zero_run (p # ps) = (if p = 0 then Suc (zero_run ps) else 0)"

definition ipv6_compress :: "nat list \<Rightarrow> nat option" where
  \<comment> \<open>The index of the first longest run of zero pieces, when it is longer than 1.\<close>
  "ipv6_compress address =
     (let runs = map (\<lambda>i. zero_run (drop i address)) [0 ..< length address];
          longest = fold max runs 0
      in if longest < 2 then None
         else find (\<lambda>i. zero_run (drop i address) = longest) [0 ..< length address])"

fun ipv6_pieces :: "nat option \<Rightarrow> bool \<Rightarrow> nat \<Rightarrow> nat list \<Rightarrow> string" where
  \<comment> \<open>The serializer's loop: \<open>compress\<close>, \<open>ignore0\<close>, the piece index, the pieces left.\<close>
  "ipv6_pieces compress ignore0 i [] = []"
| "ipv6_pieces compress ignore0 i (p # ps) =
     (if ignore0 \<and> p = 0 then ipv6_pieces compress True (Suc i) ps
      else if compress = Some i then
        (if i = 0 then ''::'' else '':'') @ ipv6_pieces compress True (Suc i) ps
      else hex_lower p @ (if i \<noteq> 7 then '':'' else []) @ ipv6_pieces compress False (Suc i) ps)"

definition ipv6_serialize :: "nat list \<Rightarrow> string" where
  "ipv6_serialize address = ipv6_pieces (ipv6_compress address) False 0 address"

definition domain_to_ASCII :: "Platform \<Rightarrow> string \<Rightarrow> string option" where
  \<comment> \<open>Domain to ASCII, not strict: on an ASCII domain without \<open>xn--\<close> labels Unicode
      ToASCII is ASCII lower-casing; an empty result or one with a forbidden domain code
      point is a failure.\<close>
  "domain_to_ASCII P domain =
     (case (if (\<forall>c \<in> set domain. (of_char c :: nat) < 0x80) \<and> \<not> has_punycode_label domain
            then Some (map ascii_lower domain)
            else ToASCII P domain) of
        None \<Rightarrow> None
      | Some result \<Rightarrow>
          if result = [] \<or> (\<exists>c \<in> set result. forbidden_domain c) then None
          else Some result)"

definition host_parse :: "Platform \<Rightarrow> string \<Rightarrow> string option" where
  \<comment> \<open>The host parser for a special scheme, with the serialized host as result.\<close>
  "host_parse P input =
     (if input \<noteq> [] \<and> hd input = CHR ''['' then
        (if last input \<noteq> CHR '']'' then None
         else map_option (\<lambda>address. CHR ''['' # ipv6_serialize address @ '']'')
                (ipv6_parser P (butlast (tl input))))
      else
        (case domain_to_ASCII P (utf8_decode (percent_decode input)) of
           None \<Rightarrow> None
         | Some asciiDomain \<Rightarrow>
             if ends_in_number asciiDomain
             then map_option ipv4_serialize (ipv4_parse asciiDomain)
             else Some asciiDomain))"

subsection \<open>The state machine after the scheme\<close>

definition c0_or_space :: "char \<Rightarrow> bool" where
  "c0_or_space c = ((of_char c :: nat) \<le> 0x20)"

definition tab_or_newline :: "char \<Rightarrow> bool" where
  "tab_or_newline c = ((of_char c :: nat) \<in> {0x09, 0x0A, 0x0D})"

definition clean_input :: "string \<Rightarrow> string" where
  \<comment> \<open>Leading and trailing C0 controls and spaces go first, then every tab and newline.\<close>
  "clean_input s =
     filter (\<lambda>c. \<not> tab_or_newline c) (rev (dropWhile c0_or_space (rev (dropWhile c0_or_space s))))"

definition authority_end :: "char \<Rightarrow> bool" where
  "authority_end c = (c \<in> set (CHR 0x5C # ''/?#''))"

fun strip_prefix :: "string \<Rightarrow> string \<Rightarrow> string option" where
  "strip_prefix [] s = Some s"
| "strip_prefix (p # ps) [] = None"
| "strip_prefix (p # ps) (c # cs) = (if p = c then strip_prefix ps cs else None)"

fun after_last_at :: "string \<Rightarrow> string \<Rightarrow> string" where
  \<comment> \<open>The authority state's buffer at its end: what follows the last \<open>@\<close>.\<close>
  "after_last_at buf [] = rev buf"
| "after_last_at buf (c # cs) =
     (if c = CHR ''@'' then after_last_at [] cs else after_last_at (c # buf) cs)"

fun host_state :: "bool \<Rightarrow> string \<Rightarrow> string \<times> string option" where
  \<comment> \<open>Host name and, after the first \<open>:\<close> outside brackets, the port string.\<close>
  "host_state inside [] = ([], None)"
| "host_state inside (c # cs) =
     (if c = CHR '':'' \<and> \<not> inside then ([], Some cs)
      else (let inside' = (if c = CHR ''['' then True else if c = CHR '']'' then False else inside);
                r = host_state inside' cs
            in (c # fst r, snd r)))"

definition port_state :: "string \<Rightarrow> nat option option" where
  \<comment> \<open>\<open>None\<close> is failure; \<open>Some None\<close> the null port, also for the default port 443.\<close>
  "port_state buf =
     (if \<not> list_all is_digit buf then None
      else if buf = [] then Some None
      else (case digits_value 10 0 buf of
              None \<Rightarrow> None
            | Some p \<Rightarrow> if 65535 < p then None
                        else if p = 443 then Some None else Some (Some p)))"

definition special_query_set :: "char \<Rightarrow> bool" where
  \<comment> \<open>The special-query percent-encode set.\<close>
  "special_query_set c =
     ((of_char c :: nat) \<le> 0x20 \<or> 0x7E < (of_char c :: nat) \<or> c \<in> set [CHR 0x22, CHR ''#'', CHR ''<'', CHR ''>'', CHR 0x27])"

definition query_state :: "string \<Rightarrow> string" where
  "query_state q =
     concat (map (\<lambda>c. if special_query_set c then percent_encode_byte c else [c])
               (takeWhile (\<lambda>c. c \<noteq> CHR ''#'') q))"

definition path_and_query :: "string \<Rightarrow> string option" where
  \<comment> \<open>The path runs to the first \<open>?\<close> or \<open>#\<close>; a query follows a \<open>?\<close>.\<close>
  "path_and_query s =
     (case dropWhile (\<lambda>c. c \<noteq> CHR ''?'' \<and> c \<noteq> CHR ''#'') s of
        [] \<Rightarrow> None
      | c # q \<Rightarrow> if c = CHR ''?'' then Some (query_state q) else None)"

definition authority_host :: "Platform \<Rightarrow> string \<Rightarrow> string option" where
  \<comment> \<open>Authority, host and port states: the serialized host with its port, if any;
      \<open>None\<close> is failure.\<close>
  "authority_host P authority =
     (let buffer = after_last_at [] authority in
      if CHR ''@'' \<in> set authority \<and> buffer = [] then None
      else (let hp = host_state False buffer in
        if fst hp = [] then None
        else (case host_parse P (fst hp) of
           None \<Rightarrow> None
         | Some h \<Rightarrow>
            (case (case snd hp of None \<Rightarrow> Some None | Some buf \<Rightarrow> port_state buf) of
               None \<Rightarrow> None
             | Some None \<Rightarrow> Some h
             | Some (Some p) \<Rightarrow> Some (h @ CHR '':'' # decimal p)))))"

definition URL_new :: "Platform \<Rightarrow> string \<Rightarrow> error + URL" where
  \<comment> \<open>After \<open>https://\<close> further slashes and backslashes are skipped; the authority runs
      to the first slash, backslash, \<open>?\<close> or \<open>#\<close>. An input with another beginning is
      outside the model: the decoder builds none.\<close>
  "URL_new P input =
     (case strip_prefix ''https://'' (clean_input input) of
        None \<Rightarrow> Inl TypeError
      | Some rest \<Rightarrow>
         (let rest' = dropWhile (\<lambda>c. c = CHR ''/'' \<or> c = CHR 0x5C) rest;
              authority = takeWhile (\<lambda>c. \<not> authority_end c) rest';
              remaining = dropWhile (\<lambda>c. \<not> authority_end c) rest'
          in (case authority_host P authority of
                None \<Rightarrow> Inl TypeError
              | Some h \<Rightarrow>
                 Inr \<lparr>url_host = h,
                      searchParams = (case path_and_query remaining of
                                        None \<Rightarrow> []
                                      | Some q \<Rightarrow> urlencoded_parse q)\<rparr>)))"

section \<open>The decoder\<close>

definition splitFormData ::
  "(string \<Rightarrow> error + URL) \<Rightarrow> string option \<Rightarrow> string list option \<Rightarrow> FieldSet" where
  \<comment> \<open>The first argument is the platform's \<open>new URL\<close>; a throw inside the \<open>try\<close> block
      leaves all six variables undefined, since the constructor call is its first
      statement.\<close>
  "splitFormData new_URL url allowedOwners =
     (if truthy url then
        (case new_URL (''https://'' @ the url) of
           Inl _ \<Rightarrow> all_absent
         | Inr parsed \<Rightarrow>
            \<lparr>host = Some (url_host parsed),
             owner = js_or (URLSearchParams_get (searchParams parsed) ''owner'')
                           (first_of allowedOwners),
             repo = js_or (URLSearchParams_get (searchParams parsed) ''repo'') None,
             organization = js_or (URLSearchParams_get (searchParams parsed) ''organization'') None,
             workspace = js_or (URLSearchParams_get (searchParams parsed) ''workspace'') None,
             project = js_or (URLSearchParams_get (searchParams parsed) ''project'') None\<rparr>)
      else all_absent)"

section \<open>The component\<close>

datatype widget =
  Progress | HostSelect | OrganizationInput | WorkspaceInput | ProjectInput
  | OwnerInput | OwnerSelect | RepositoryInput

record ScmIntegration =
  scm_type :: string

definition type_byHost :: "(string \<Rightarrow> ScmIntegration option) \<Rightarrow> string option \<Rightarrow> string option" where
  \<comment> \<open>\<open>integrationApi.byHost(host)?.type\<close>, read only under \<open>host &&\<close>.\<close>
  "type_byHost byHost h =
     (case h of None \<Rightarrow> None | Some s \<Rightarrow> map_option scm_type (byHost s))"

definition RepoUrlPicker_render ::
  "bool \<Rightarrow> (string \<Rightarrow> ScmIntegration option) \<Rightarrow> string list option \<Rightarrow> FieldSet \<Rightarrow> widget list" where
  "RepoUrlPicker_render loading byHost allowedOwners fs =
     (if loading then [Progress]
      else
        [HostSelect]
        @ (if host fs = Some ''dev.azure.com'' then [OrganizationInput] else [])
        @ (if truthy (host fs) \<and> type_byHost byHost (host fs) = Some ''bitbucket'' then
             (if host fs = Some ''bitbucket.org'' then [WorkspaceInput] else [])
             @ [ProjectInput]
           else [])
        @ (if truthy (host fs) \<and> type_byHost byHost (host fs) \<noteq> Some ''bitbucket''
              \<and> allowedOwners = None then [OwnerInput] else [])
        @ (if truthy (host fs) \<and> type_byHost byHost (host fs) \<noteq> Some ''bitbucket''
              \<and> allowedOwners \<noteq> None then [OwnerSelect] else [])
        @ [RepositoryInput])"

record Integration =
  ihost :: string
  title :: string

definition default_host_effect :: "Integration list option \<Rightarrow> FieldSet \<Rightarrow> string option list" where
  \<comment> \<open>The \<open>useEffect\<close> body: the list of values passed to \<open>onChange\<close>.\<close>
  "default_host_effect integrations fs =
     (if host fs = None \<and> (case integrations of None \<Rightarrow> False | Some l \<Rightarrow> l \<noteq> []) then
        (case integrations of
           Some (i # _) \<Rightarrow>
             [serializeFormData
                \<lparr>host = Some (ihost i), owner = owner fs, repo = repo fs,
                 organization = organization fs, workspace = workspace fs,
                 project = project fs\<rparr>]
         | _ \<Rightarrow> [])
      else [])"

definition RepoUrlPicker_effect ::
  "(string \<Rightarrow> error + URL) \<Rightarrow> string option \<Rightarrow> string list option
     \<Rightarrow> Integration list option \<Rightarrow> string option list" where
  \<comment> \<open>The effect as the component runs it: on the fields decoded from \<open>formData\<close>.\<close>
  "RepoUrlPicker_effect new_URL formData allowedOwners integrations =
     default_host_effect integrations (splitFormData new_URL formData allowedOwners)"

definition credentials_url :: "FieldSet \<Rightarrow> string" where
  \<comment> \<open>\<open>`https://${host}/${owner}/${repo}`\<close>, built only when all three are truthy.\<close>
  "credentials_url fs =
     ''https://'' @ the (host fs) @ CHR ''/'' # the (owner fs) @ CHR ''/'' # the (repo fs)"

definition onBlur ::
  "string option \<Rightarrow> (string \<Rightarrow> 'e + string) \<Rightarrow> (string \<times> string \<Rightarrow> 's \<Rightarrow> 's)
     \<Rightarrow> FieldSet \<Rightarrow> 's \<Rightarrow> string list \<times> 's" where
  \<comment> \<open>\<open>withCredentials\<close> is given by its key; \<open>getCredentials\<close> resolves to a token or
      rejects; \<open>setSecret\<close> is the secrets context's update. The result is the list of
      requested URLs and the secrets context afterwards.\<close>
  "onBlur withCredentials getCredentials setSecret fs secrets =
     (case withCredentials of
        None \<Rightarrow> ([], secrets)
      | Some key \<Rightarrow>
         if truthy (host fs) \<and> truthy (owner fs) \<and> truthy (repo fs) then
           (case getCredentials (credentials_url fs) of
              Inl _ \<Rightarrow> ([credentials_url fs], secrets)
            | Inr token \<Rightarrow> ([credentials_url fs], setSecret (key, token) secrets))
         else ([], secrets))"

definition updateHost ::
  "string option \<Rightarrow> (string \<Rightarrow> 'e + string) \<Rightarrow> (string \<times> string \<Rightarrow> 's \<Rightarrow> 's)
     \<Rightarrow> FieldSet \<Rightarrow> string \<Rightarrow> 's \<Rightarrow> string option \<times> string list \<times> 's" where
  \<comment> \<open>The value passed to \<open>onChange\<close>, then \<open>onBlur()\<close> on the fields decoded at the
      last render.\<close>
  "updateHost withCredentials getCredentials setSecret fs v secrets =
     (serializeFormData
        \<lparr>host = Some v, owner = owner fs, repo = repo fs, organization = organization fs,
         workspace = workspace fs, project = project fs\<rparr>,
      onBlur withCredentials getCredentials setSecret fs secrets)"

section \<open>Predicates used in the properties\<close>

definition encoded_char :: "char \<Rightarrow> bool" where
  \<comment> \<open>The bytes the form-urlencoded serializer writes for a name or a value.\<close>
  "encoded_char c = (urlencoded_unreserved c \<or> c = CHR ''+'' \<or> c = CHR ''%'')"

definition tuple_string :: "string \<times> string \<Rightarrow> string" where
  \<comment> \<open>One \<open>name=value\<close> sequence of the serializer.\<close>
  "tuple_string p = urlencoded_encode (fst p) @ CHR ''='' # urlencoded_encode (snd p)"

definition query_char :: "char \<Rightarrow> bool" where
  "query_char c = (encoded_char c \<or> c = CHR ''='' \<or> c = CHR ''&'')"

definition authority_char :: "char \<Rightarrow> bool" where
  \<comment> \<open>Neither stripped from the input nor a delimiter of the authority.\<close>
  "authority_char c = (\<not> c0_or_space c \<and> \<not> authority_end c \<and> c \<noteq> CHR ''@'')"

definition canonical_host :: "Platform \<Rightarrow> string \<Rightarrow> bool" where
  \<comment> \<open>The URL parser returns the string unchanged as the host of \<open>https://\<close> + string.\<close>
  "canonical_host P h =
     (case URL_new P (''https://'' @ h) of Inl _ \<Rightarrow> False | Inr u \<Rightarrow> url_host u = h)"

definition host_name_char :: "char \<Rightarrow> bool" where
  \<comment> \<open>A lower-case letter, a digit, a hyphen or a dot.\<close>
  "host_name_char c =
     (let n = (of_char c :: nat) in
      (97 \<le> n \<and> n \<le> 122) \<or> (48 \<le> n \<and> n \<le> 57) \<or> c = CHR ''-'' \<or> c = CHR ''.'')"

definition plain_host :: "string \<Rightarrow> bool" where
  \<comment> \<open>A lower-case host name whose last label is not a number and that has no
      \<open>xn--\<close> label.\<close>
  "plain_host h =
     (h \<noteq> [] \<and> list_all host_name_char h \<and> \<not> has_punycode_label h \<and> \<not> ends_in_number h)"

definition wellformed :: "string option \<Rightarrow> bool" where
  \<comment> \<open>Undefined, or a string: the byte strings that stand for JavaScript strings are
      the well-formed UTF-8 ones, which the decoder leaves as they are.\<close>
  "wellformed v = (case v of None \<Rightarrow> True | Some s \<Rightarrow> utf8_decode s = s)"

definition field_ok :: "string option \<Rightarrow> bool" where
  \<comment> \<open>Undefined, or a non-empty string.\<close>
  "field_ok v = (wellformed v \<and> v \<noteq> Some [])"

section \<open>Properties of the codec\<close>

lemma truthy_simps:
  "truthy None = False" "truthy (Some s) = (s \<noteq> [])"
  by (simp_all add: truthy_def)

lemma form_params_present:
  "form_params data =
     map (\<lambda>(n, v). (n, the v))
       (filter (\<lambda>(n, v). truthy v)
          [(''owner'', owner data), (''repo'', repo data), (''organization'', organization data),
           (''workspace'', workspace data), (''project'', project data)])"
  by (simp add: form_params_def Let_def set_if_def truthy_simps split: option.splits)

text \<open>
  C2, as amended. The encoder returns \<open>undefined\<close> exactly when the host is falsy, that
  is undefined or the empty string (the guard is \<open>!data.host\<close>); for every non-empty
  host it returns the host, a \<open>?\<close> and the serialized parameters.
\<close>

theorem serializeFormData_absent_iff:
  "(serializeFormData data = None \<longleftrightarrow> host data = None \<or> host data = Some []) \<and>
   (\<forall>h. host data = Some h \<and> h \<noteq> [] \<longrightarrow>
      serializeFormData data = Some (h @ CHR ''?'' # URLSearchParams_toString (form_params data)))"
  by (auto simp: serializeFormData_def truthy_def split: option.splits)

theorem serializeFormData_absent_iff_witness:
  "serializeFormData \<lparr>host = Some ''github.com'', owner = None, repo = Some ''r'',
      organization = None, workspace = None, project = None\<rparr> = Some ''github.com?repo=r'' \<and>
   serializeFormData \<lparr>host = Some [], owner = None, repo = Some ''r'',
      organization = None, workspace = None, project = None\<rparr> = None"
  using serializeFormData_absent_iff [of "\<lparr>host = Some ''github.com'', owner = None, repo = Some ''r'',
      organization = None, workspace = None, project = None\<rparr>"] 
    serializeFormData_absent_iff [of "\<lparr>host = Some [], owner = None, repo = Some ''r'',
      organization = None, workspace = None, project = None\<rparr>"] 
  by (simp add: form_params_def Let_def set_if_def URLSearchParams_toString_def urlencoded_encode_def
        urlencoded_encode_byte_def urlencoded_unreserved_def is_alnum_def)

text \<open>
  The claim as stated fails for a host that is defined but empty: the result is absent.
\<close>

theorem serializeFormData_empty_host_counterexample:
  "host \<lparr>host = Some [], owner = None, repo = None, organization = None,
         workspace = None, project = None\<rparr> \<noteq> None \<and>
   serializeFormData \<lparr>host = Some [], owner = None, repo = None, organization = None,
         workspace = None, project = None\<rparr> = None"
  by (simp add: serializeFormData_def truthy_def)

text \<open>
  C5. The query string holds exactly the truthy optional fields, in the order owner,
  repo, organization, workspace, project; the Azure example of the specification
  serializes to \<open>dev.azure.com?repo=r1&organization=org1\<close>.
\<close>

theorem serializeFormData_fixed_order:
  "(truthy (host data) \<longrightarrow>
      serializeFormData data =
        Some (the (host data) @ CHR ''?'' #
              URLSearchParams_toString
                (map (\<lambda>(n, v). (n, the v))
                   (filter (\<lambda>(n, v). truthy v)
                      [(''owner'', owner data), (''repo'', repo data),
                       (''organization'', organization data),
                       (''workspace'', workspace data), (''project'', project data)])))) \<and>
   serializeFormData \<lparr>host = Some ''dev.azure.com'', owner = None, repo = Some ''r1'',
      organization = Some ''org1'', workspace = None, project = None\<rparr>
     = Some ''dev.azure.com?repo=r1&organization=org1''"
proof (intro conjI impI)
  assume "truthy (host data)"
  then show "serializeFormData data =
        Some (the (host data) @ CHR ''?'' #
              URLSearchParams_toString
                (map (\<lambda>(n, v). (n, the v))
                   (filter (\<lambda>(n, v). truthy v)
                      [(''owner'', owner data), (''repo'', repo data),
                       (''organization'', organization data),
                       (''workspace'', workspace data), (''project'', project data)])))"
    unfolding form_params_present [symmetric] by (simp add: serializeFormData_def)
next
  show "serializeFormData \<lparr>host = Some ''dev.azure.com'', owner = None, repo = Some ''r1'',
      organization = Some ''org1'', workspace = None, project = None\<rparr>
     = Some ''dev.azure.com?repo=r1&organization=org1''"
    by code_simp
qed

theorem serializeFormData_fixed_order_witness:
  "serializeFormData \<lparr>host = Some ''bitbucket.org'', owner = Some [], repo = Some ''r'',
      organization = None, workspace = Some ''w'', project = Some ''p''\<rparr>
     = Some ''bitbucket.org?repo=r&workspace=w&project=p''"
proof -
  have e: "URLSearchParams_toString [(''repo'', ''r''), (''workspace'', ''w''), (''project'', ''p'')]
             = ''repo=r&workspace=w&project=p''"
    by code_simp
  show ?thesis
    using e serializeFormData_fixed_order [of "\<lparr>host = Some ''bitbucket.org'', owner = Some [],
      repo = Some ''r'', organization = None, workspace = Some ''w'', project = Some ''p''\<rparr>"]
    by (simp add: truthy_def)
qed

text \<open>
  C3. The decoder is a total function to FieldSets for every behaviour of the platform's
  URL constructor: whenever the constructor throws on \<open>https://\<close> followed by the
  serialized value, the \<open>catch\<close> swallows the error and the result is the all-absent
  FieldSet, whatever the allowed owners are.
\<close>

theorem splitFormData_fail_soft:
  "new_URL (''https://'' @ s) = Inl e \<Longrightarrow>
     splitFormData new_URL (Some s) allowedOwners = all_absent"
  by (simp add: splitFormData_def)

theorem splitFormData_fail_soft_witness:
  "\<forall>P. URL_new P (''https://'' @ ''a b?owner=x'') = Inl TypeError \<and>
        splitFormData (URL_new P) (Some ''a b?owner=x'') (Some [''acme'']) = all_absent"
proof
  fix P
  have h: "URL_new P (''https://'' @ ''a b?owner=x'') = Inl TypeError"
    by code_simp
  show "URL_new P (''https://'' @ ''a b?owner=x'') = Inl TypeError \<and>
        splitFormData (URL_new P) (Some ''a b?owner=x'') (Some [''acme'']) = all_absent"
    using h splitFormData_fail_soft [of "URL_new P" "''a b?owner=x''" TypeError "Some [''acme'']"]
    by simp
qed

text \<open>
  C4, as amended. The backfill of \<open>owner\<close> sits inside \<open>if (url)\<close>. An undefined or
  empty serialized value, and one that does not parse, decode to the all-absent FieldSet
  whatever the allowed owners are. For a non-empty value that parses, the owner is the
  first allowed owner exactly when the \<open>owner\<close> parameter is missing or empty, and the
  \<open>owner\<close> parameter itself otherwise.
\<close>

theorem splitFormData_owner_backfill:
  "(\<not> truthy url \<longrightarrow> splitFormData new_URL url allowedOwners = all_absent) \<and>
   (truthy url \<and> new_URL (''https://'' @ the url) = Inl e \<longrightarrow>
      splitFormData new_URL url allowedOwners = all_absent) \<and>
   (truthy url \<and> new_URL (''https://'' @ the url) = Inr parsed \<and>
      \<not> truthy (URLSearchParams_get (searchParams parsed) ''owner'') \<longrightarrow>
      owner (splitFormData new_URL url allowedOwners) = first_of allowedOwners) \<and>
   (truthy url \<and> new_URL (''https://'' @ the url) = Inr parsed \<and>
      truthy (URLSearchParams_get (searchParams parsed) ''owner'') \<longrightarrow>
      owner (splitFormData new_URL url allowedOwners)
        = URLSearchParams_get (searchParams parsed) ''owner'')"
  by (simp add: splitFormData_def js_or_def)

theorem splitFormData_owner_backfill_witness:
  "\<forall>P. splitFormData (URL_new P) None (Some [''acme'']) = all_absent \<and>
        splitFormData (URL_new P) (Some ''a b?owner=bob'') (Some [''acme'']) = all_absent \<and>
        owner (splitFormData (URL_new P) (Some ''github.com?repo=r'') (Some [''acme'']))
          = Some ''acme'' \<and>
        owner (splitFormData (URL_new P) (Some ''github.com?owner=bob'') (Some [''acme'']))
          = Some ''bob''"
proof
  fix P
  have f: "URL_new P (''https://'' @ the (Some ''a b?owner=bob'')) = Inl TypeError"
    by code_simp
  have p: "URL_new P (''https://'' @ the (Some ''github.com?repo=r''))
             = Inr \<lparr>url_host = ''github.com'', searchParams = [(''repo'', ''r'')]\<rparr>"
    by code_simp
  have q: "URL_new P (''https://'' @ the (Some ''github.com?owner=bob''))
             = Inr \<lparr>url_host = ''github.com'', searchParams = [(''owner'', ''bob'')]\<rparr>"
    by code_simp
  have a: "splitFormData (URL_new P) None (Some [''acme'']) = all_absent"
    using splitFormData_owner_backfill [of None "URL_new P" "Some [''acme'']"]
    by (simp add: truthy_def)
  have b: "splitFormData (URL_new P) (Some ''a b?owner=bob'') (Some [''acme'']) = all_absent"
    using splitFormData_owner_backfill [of "Some ''a b?owner=bob''" "URL_new P"
              "Some [''acme'']" TypeError] f
    by (simp add: truthy_def)
  have c: "owner (splitFormData (URL_new P) (Some ''github.com?repo=r'') (Some [''acme'']))
             = Some ''acme''"
    using splitFormData_owner_backfill [of "Some ''github.com?repo=r''" "URL_new P"
              "Some [''acme'']" _ "\<lparr>url_host = ''github.com'', searchParams = [(''repo'', ''r'')]\<rparr>"] p
    by (simp add: truthy_def first_of_def)
  have d: "owner (splitFormData (URL_new P) (Some ''github.com?owner=bob'') (Some [''acme'']))
             = Some ''bob''"
    using splitFormData_owner_backfill [of "Some ''github.com?owner=bob''" "URL_new P"
              "Some [''acme'']" _ "\<lparr>url_host = ''github.com'', searchParams = [(''owner'', ''bob'')]\<rparr>"] q
    by (simp add: truthy_def)
  show "splitFormData (URL_new P) None (Some [''acme'']) = all_absent \<and>
        splitFormData (URL_new P) (Some ''a b?owner=bob'') (Some [''acme'']) = all_absent \<and>
        owner (splitFormData (URL_new P) (Some ''github.com?repo=r'') (Some [''acme'']))
          = Some ''acme'' \<and>
        owner (splitFormData (URL_new P) (Some ''github.com?owner=bob'') (Some [''acme'']))
          = Some ''bob''"
    using a b c d by simp
qed

text \<open>
  The claim as stated fails: with \<open>allowedOwners = ["acme"]\<close> an undefined serialized
  value decodes to an undefined owner, whatever the URL constructor does.
\<close>

theorem splitFormData_undefined_counterexample:
  "\<forall>new_URL. owner (splitFormData new_URL None (Some [''acme''])) = None"
  by (simp add: splitFormData_def truthy_def all_absent_def)

section \<open>The round trip through the URL parser\<close>

subsection \<open>Percent-encoding\<close>

lemma hex_val_hex_digit: "d < 16 \<Longrightarrow> hex_val (hex_digit d) = Some d"
  by (auto simp: hex_val_def hex_digit_def Let_def)

lemma hex_digit_alnum: "d < 16 \<Longrightarrow> is_alnum (hex_digit d)"
  by (auto simp: is_alnum_def hex_digit_def Let_def)

lemma high_nibble: "(of_char c :: nat) div 16 < 16"
  by (rule less_mult_imp_div_less) simp

lemma low_nibble: "(of_char c :: nat) mod 16 < 16"
  by simp

lemma percent_decode_encode_byte:
  "percent_decode (percent_encode_byte c @ rest) = c # percent_decode rest"
proof -
  note a = high_nibble [of c] and b = low_nibble [of c]
  show ?thesis
    by (simp add: percent_encode_byte_def hex_val_hex_digit [OF a] hex_val_hex_digit [OF b])
qed

lemma encoded_char_encode_byte: "x \<in> set (urlencoded_encode_byte c) \<Longrightarrow> encoded_char x"
proof -
  note a = high_nibble [of c] and b = low_nibble [of c]
  assume "x \<in> set (urlencoded_encode_byte c)"
  then show ?thesis
    using hex_digit_alnum [OF a] hex_digit_alnum [OF b]
    by (auto simp: urlencoded_encode_byte_def percent_encode_byte_def encoded_char_def
          urlencoded_unreserved_def split: if_splits)
qed

lemma encoded_char_encode: "x \<in> set (urlencoded_encode s) \<Longrightarrow> encoded_char x"
  by (auto simp: urlencoded_encode_def dest: encoded_char_encode_byte)

lemma unreserved_not_special:
  "urlencoded_unreserved c \<Longrightarrow> c \<noteq> CHR ''+'' \<and> c \<noteq> CHR ''%'' \<and> c \<noteq> CHR '' ''"
  by (auto simp: urlencoded_unreserved_def is_alnum_def)

lemma decode_encode_byte:
  "percent_decode (plus_to_space (urlencoded_encode_byte c @ rest))
     = c # percent_decode (plus_to_space rest)"
proof -
  note a = high_nibble [of c] and b = low_nibble [of c]
  have p: "plus_to_space (percent_encode_byte c @ rest) = percent_encode_byte c @ plus_to_space rest"
    using hex_digit_alnum [OF a] hex_digit_alnum [OF b]
    by (auto simp: plus_to_space_def percent_encode_byte_def is_alnum_def)
  show ?thesis
  proof (cases "c = CHR '' ''")
    case True
    then show ?thesis by (simp add: urlencoded_encode_byte_def plus_to_space_def)
  next
    case False
    show ?thesis
    proof (cases "urlencoded_unreserved c")
      case True
      with False unreserved_not_special [OF True] show ?thesis
        by (simp add: urlencoded_encode_byte_def plus_to_space_def)
    next
      case u: False
      with False show ?thesis
        by (simp add: urlencoded_encode_byte_def p percent_decode_encode_byte)
    qed
  qed
qed

lemma decode_encode_append:
  "percent_decode (plus_to_space (urlencoded_encode s @ rest))
     = s @ percent_decode (plus_to_space rest)"
proof (induction s)
  case Nil
  then show ?case by (simp add: urlencoded_encode_def)
next
  case (Cons c s)
  have "urlencoded_encode (c # s) @ rest = urlencoded_encode_byte c @ (urlencoded_encode s @ rest)"
    by (simp add: urlencoded_encode_def)
  then show ?case using Cons by (simp add: decode_encode_byte)
qed

lemma urlencoded_decode_encode: "urlencoded_decode (urlencoded_encode s) = utf8_decode s"
  using decode_encode_append [of s "[]"] by (simp add: urlencoded_decode_def plus_to_space_def)

subsection \<open>Parsing what the serializer wrote\<close>

lemma takeWhile_until:
  "(\<forall>x \<in> set xs. P x) \<Longrightarrow> \<not> P y \<Longrightarrow> takeWhile P (xs @ y # ys) = xs"
  by (induction xs) auto

lemma dropWhile_until:
  "(\<forall>x \<in> set xs. P x) \<Longrightarrow> \<not> P y \<Longrightarrow> dropWhile P (xs @ y # ys) = y # ys"
  by (induction xs) auto

lemma split_on_single: "d \<notin> set x \<Longrightarrow> split_on d x = [x]"
  by (induction x) (auto split: list.splits)

lemma split_on_append:
  "d \<notin> set x \<Longrightarrow> split_on d (x @ d # rest) = x # split_on d rest"
  by (induction x) (auto split: list.splits)

lemma encoded_char_not_delimiter:
  "encoded_char c \<Longrightarrow> c \<noteq> CHR ''&'' \<and> c \<noteq> CHR ''='' \<and> c \<noteq> CHR ''#''"
  by (auto simp: encoded_char_def urlencoded_unreserved_def is_alnum_def)

lemma toString_tuple_string:
  "URLSearchParams_toString ps = join_amp (map tuple_string ps)"
proof -
  have "(\<lambda>(n, v). urlencoded_encode n @ CHR ''='' # urlencoded_encode v) = tuple_string"
    by (auto simp: tuple_string_def fun_eq_iff)
  then show ?thesis by (simp add: URLSearchParams_toString_def)
qed

lemma amp_notin_tuple_string: "CHR ''&'' \<notin> set (tuple_string p)"
  using encoded_char_not_delimiter encoded_char_encode
  by (auto simp: tuple_string_def)

lemma tuple_string_not_Nil: "tuple_string p \<noteq> []"
  by (simp add: tuple_string_def)

lemma split_join_amp:
  "filter (\<lambda>s. s \<noteq> []) (split_on CHR ''&'' (join_amp (map tuple_string ps))) = map tuple_string ps"
proof (induction ps rule: induct_list012)
  case 1
  then show ?case by simp
next
  case (2 p)
  then show ?case
    by (simp add: split_on_single [OF amp_notin_tuple_string] tuple_string_not_Nil)
next
  case (3 p p' ps)
  then show ?case
    by (simp add: split_on_append [OF amp_notin_tuple_string] tuple_string_not_Nil)
qed

lemma urlencoded_pair_tuple_string:
  "urlencoded_pair (tuple_string p) = (utf8_decode (fst p), utf8_decode (snd p))"
proof -
  have n: "\<forall>x \<in> set (urlencoded_encode (fst p)). x \<noteq> CHR ''=''"
    using encoded_char_not_delimiter encoded_char_encode by blast
  show ?thesis
    by (simp add: urlencoded_pair_def tuple_string_def takeWhile_until [OF n]
          dropWhile_until [OF n] urlencoded_decode_encode)
qed

lemma urlencoded_parse_toString:
  "urlencoded_parse (URLSearchParams_toString ps)
     = map (\<lambda>p. (utf8_decode (fst p), utf8_decode (snd p))) ps"
  by (simp add: urlencoded_parse_def toString_tuple_string split_join_amp
        urlencoded_pair_tuple_string)

lemma query_char_join_amp:
  "x \<in> set (join_amp (map tuple_string ps)) \<Longrightarrow> query_char x"
proof (induction ps rule: induct_list012)
  case 1
  then show ?case by simp
next
  case (2 p)
  then show ?case
    by (auto simp: tuple_string_def query_char_def dest: encoded_char_encode)
next
  case (3 p p' ps)
  then show ?case
    by (auto simp: tuple_string_def query_char_def dest: encoded_char_encode)
qed

lemma query_char_toString: "x \<in> set (URLSearchParams_toString ps) \<Longrightarrow> query_char x"
  by (simp add: toString_tuple_string query_char_join_amp)

lemma query_char_plain:
  "query_char c \<Longrightarrow> \<not> special_query_set c \<and> \<not> c0_or_space c \<and> \<not> tab_or_newline c
     \<and> c \<noteq> CHR ''#''"
  by (auto simp: query_char_def encoded_char_def urlencoded_unreserved_def is_alnum_def
        special_query_set_def c0_or_space_def tab_or_newline_def)

subsection \<open>The host the parser returns\<close>

lemma decimal_digits: "x \<in> set (decimal n) \<Longrightarrow> is_digit x"
proof (induction n rule: decimal.induct)
  case (1 n)
  then show ?case
    by (subst (asm) decimal.simps) (auto simp: is_digit_def split: if_splits)
qed

lemma decimal_not_Nil: "decimal n \<noteq> []"
  by (subst decimal.simps) simp

lemma digit_authority_char: "is_digit c \<Longrightarrow> authority_char c \<and> \<not> forbidden_domain c"
  by (auto simp: is_digit_def authority_char_def forbidden_domain_def c0_or_space_def
        authority_end_def)

lemma not_forbidden_authority_char: "\<not> forbidden_domain c \<Longrightarrow> authority_char c"
  by (auto simp: authority_char_def forbidden_domain_def c0_or_space_def authority_end_def)

lemma ipv4_serialize_digits:
  "x \<in> set (ipv4_serialize a) \<Longrightarrow> is_digit x \<or> x = CHR ''.''"
  by (auto simp: ipv4_serialize_def dest: decimal_digits)

lemma dot_not_forbidden: "\<not> forbidden_domain CHR ''.''"
  by (simp add: forbidden_domain_def)

lemma ipv4_serialize_chars: "x \<in> set (ipv4_serialize a) \<Longrightarrow> \<not> forbidden_domain x"
  using ipv4_serialize_digits [of x a] digit_authority_char [of x] dot_not_forbidden
  by blast

lemma ipv4_serialize_not_Nil: "ipv4_serialize a \<noteq> []"
  by (simp add: ipv4_serialize_def decimal_not_Nil)

lemma punctuation_authority_char:
  "authority_char CHR '':''" "authority_char CHR ''[''" "authority_char CHR '']''"
  by (simp_all add: authority_char_def c0_or_space_def authority_end_def)

lemma alnum_authority_char: "is_alnum c \<Longrightarrow> authority_char c"
  by (auto simp: is_alnum_def authority_char_def c0_or_space_def authority_end_def Let_def)

lemma hex_digit_lower_alnum: "d < 16 \<Longrightarrow> is_alnum (ascii_lower (hex_digit d))"
  by (auto simp: is_alnum_def hex_digit_def ascii_lower_def Let_def)

lemma hex_lower_chars: "x \<in> set (hex_lower n) \<Longrightarrow> is_alnum x"
proof (induction n rule: hex_lower.induct)
  case (1 n)
  have m: "n mod 16 < 16" by simp
  from 1 show ?case
    by (subst (asm) (2) hex_lower.simps)
       (auto simp: hex_digit_lower_alnum [OF m] hex_digit_lower_alnum split: if_splits)
qed

lemma ipv6_pieces_chars:
  "x \<in> set (ipv6_pieces c ig i ps) \<Longrightarrow> x = CHR '':'' \<or> is_alnum x"
  by (induction ps arbitrary: ig i) (auto dest: hex_lower_chars split: if_splits)

lemma ipv6_serialize_chars:
  "x \<in> set (ipv6_serialize a) \<Longrightarrow> x = CHR '':'' \<or> is_alnum x"
  unfolding ipv6_serialize_def by (rule ipv6_pieces_chars)

lemma domain_to_ASCII_chars:
  assumes "domain_to_ASCII P d = Some r"
  shows "r \<noteq> [] \<and> (\<forall>c \<in> set r. \<not> forbidden_domain c)"
  using assms by (auto simp: domain_to_ASCII_def split: option.splits if_splits)

lemma host_parse_chars:
  assumes "host_parse P x = Some r"
  shows "r \<noteq> [] \<and> (\<forall>c \<in> set r. authority_char c)"
proof (cases "x \<noteq> [] \<and> hd x = CHR ''[''")
  case True
  with assms obtain a where "r = CHR ''['' # ipv6_serialize a @ '']''"
    by (auto simp: host_parse_def split: if_splits)
  then show ?thesis
    using ipv6_serialize_chars [of _ a] punctuation_authority_char alnum_authority_char
    by auto
next
  case False
  with assms obtain d where d: "domain_to_ASCII P (utf8_decode (percent_decode x)) = Some d"
    and r: "r = d \<or> (\<exists>a. r = ipv4_serialize a)"
    by (auto simp: host_parse_def split: option.splits if_splits)
  from r show ?thesis
  proof
    assume "r = d"
    with domain_to_ASCII_chars [OF d] not_forbidden_authority_char show ?thesis by blast
  next
    assume "\<exists>a. r = ipv4_serialize a"
    then obtain a where "r = ipv4_serialize a" ..
    then show ?thesis
      using ipv4_serialize_chars [of _ a] ipv4_serialize_not_Nil [of a]
        not_forbidden_authority_char
      by auto
  qed
qed

lemma authority_host_chars:
  assumes "authority_host P a = Some r"
  shows "r \<noteq> [] \<and> (\<forall>c \<in> set r. authority_char c)"
proof -
  from assms obtain x h where hp: "host_parse P x = Some h"
    and r: "r = h \<or> (\<exists>p. r = h @ CHR '':'' # decimal p)"
    by (auto simp: authority_host_def Let_def split: if_splits option.splits)
  from host_parse_chars [OF hp] have h: "h \<noteq> []" "\<forall>c \<in> set h. authority_char c"
    by auto
  from r show ?thesis
  proof
    assume "r = h"
    with h show ?thesis by simp
  next
    assume "\<exists>p. r = h @ CHR '':'' # decimal p"
    then obtain p where "r = h @ CHR '':'' # decimal p" ..
    with h punctuation_authority_char(1) decimal_digits digit_authority_char
    show ?thesis by auto
  qed
qed

lemma tab_is_c0: "tab_or_newline c \<Longrightarrow> c0_or_space c"
  by (auto simp: tab_or_newline_def c0_or_space_def)

lemma clean_input_id: "(\<forall>c \<in> set s. \<not> c0_or_space c) \<Longrightarrow> clean_input s = s"
proof -
  assume a: "\<forall>c \<in> set s. \<not> c0_or_space c"
  have 1: "dropWhile c0_or_space s = s"
    using a by (cases s) auto
  have "\<forall>c \<in> set (rev s). \<not> c0_or_space c"
    using a by simp
  then have 2: "dropWhile c0_or_space (rev s) = rev s"
    by (cases "rev s") auto
  have 3: "filter (\<lambda>c. \<not> tab_or_newline c) s = s"
    using a tab_is_c0 by (auto simp: filter_id_conv)
  show ?thesis by (simp add: clean_input_def 1 2 3)
qed

lemma https_chars: "\<forall>c \<in> set ''https://''. \<not> c0_or_space c"
  by (simp add: c0_or_space_def)

lemma strip_prefix_append: "strip_prefix p (p @ s) = Some s"
  by (induction p) auto

lemma URL_new_authority:
  assumes h: "h \<noteq> []" "\<forall>c \<in> set h. authority_char c"
    and q: "\<forall>c \<in> set q. query_char c"
  shows "URL_new P (''https://'' @ h @ CHR ''?'' # q) =
           (case authority_host P h of
              None \<Rightarrow> Inl TypeError
            | Some r \<Rightarrow> Inr \<lparr>url_host = r, searchParams = urlencoded_parse q\<rparr>)"
    and "URL_new P (''https://'' @ h) =
           (case authority_host P h of
              None \<Rightarrow> Inl TypeError
            | Some r \<Rightarrow> Inr \<lparr>url_host = r, searchParams = []\<rparr>)"
proof -
  have qm: "\<not> c0_or_space CHR ''?''" "authority_end CHR ''?''"
    by (simp_all add: c0_or_space_def authority_end_def)
  have hc: "\<forall>c \<in> set h. \<not> c0_or_space c"
    using h by (simp add: authority_char_def)
  have qc: "\<forall>c \<in> set q. \<not> c0_or_space c"
    using q query_char_plain by blast
  have all: "\<forall>c \<in> set (''https://'' @ h @ CHR ''?'' # q). \<not> c0_or_space c"
    unfolding set_append ball_Un using https_chars hc qc qm(1) by simp
  have all': "\<forall>c \<in> set (''https://'' @ h). \<not> c0_or_space c"
    unfolding set_append ball_Un using https_chars hc by simp
  have ne: "\<forall>x \<in> set h. \<not> authority_end x" using h by (simp add: authority_char_def)
  from h obtain a h' where hh: "h = a # h'" by (cases h) auto
  with ne have a: "a \<noteq> CHR ''/''" "a \<noteq> CHR 0x5C"
    by (auto simp: authority_end_def)
  have sl: "dropWhile (\<lambda>c. c = CHR ''/'' \<or> c = CHR 0x5C) (h @ r) = h @ r" for r
    using a hh by simp
  have tw: "takeWhile (\<lambda>c. \<not> authority_end c) (h @ CHR ''?'' # q) = h"
    using ne qm by (intro takeWhile_until) auto
  have dw: "dropWhile (\<lambda>c. \<not> authority_end c) (h @ CHR ''?'' # q) = CHR ''?'' # q"
    using ne qm by (intro dropWhile_until) auto
  have tw': "takeWhile (\<lambda>c. \<not> authority_end c) h = h"
    using ne by (simp add: takeWhile_eq_all_conv)
  have dw': "dropWhile (\<lambda>c. \<not> authority_end c) h = []"
    using ne by simp
  have qs: "query_state q = q"
  proof -
    have tq: "takeWhile (\<lambda>c. c \<noteq> CHR ''#'') q = q"
      using q query_char_plain by (auto simp: takeWhile_eq_all_conv)
    have cq: "concat (map (\<lambda>c. if special_query_set c then percent_encode_byte c else [c]) q) = q"
      using q query_char_plain by (induction q) auto
    show ?thesis unfolding query_state_def tq by (rule cq)
  qed
  have pq: "path_and_query (CHR ''?'' # q) = Some q"
    by (simp add: path_and_query_def qs)
  have pq': "path_and_query [] = None"
    by (simp add: path_and_query_def)
  show "URL_new P (''https://'' @ h @ CHR ''?'' # q) =
           (case authority_host P h of
              None \<Rightarrow> Inl TypeError
            | Some r \<Rightarrow> Inr \<lparr>url_host = r, searchParams = urlencoded_parse q\<rparr>)"
    unfolding URL_new_def clean_input_id [OF all] strip_prefix_append
    by (simp add: sl tw dw pq split: option.splits)
  show "URL_new P (''https://'' @ h) =
           (case authority_host P h of
              None \<Rightarrow> Inl TypeError
            | Some r \<Rightarrow> Inr \<lparr>url_host = r, searchParams = []\<rparr>)"
    unfolding URL_new_def clean_input_id [OF all'] strip_prefix_append
    using sl [of "[]"] by (simp add: tw' dw' pq' split: option.splits)
qed

lemma URL_new_host_chars:
  assumes "URL_new P input = Inr u"
  shows "url_host u \<noteq> [] \<and> (\<forall>c \<in> set (url_host u). authority_char c)"
proof -
  from assms obtain a where "authority_host P a = Some (url_host u)"
    by (auto simp: URL_new_def Let_def split: option.splits)
  then show ?thesis by (rule authority_host_chars)
qed

lemma canonical_host_authority:
  assumes "canonical_host P h"
  shows "h \<noteq> []" "\<forall>c \<in> set h. authority_char c" "authority_host P h = Some h"
proof -
  from assms obtain u where u: "URL_new P (''https://'' @ h) = Inr u" "url_host u = h"
    by (auto simp: canonical_host_def split: sum.splits)
  from URL_new_host_chars [OF u(1)] u(2)
  show ne: "h \<noteq> []" and ch: "\<forall>c \<in> set h. authority_char c" by auto
  from URL_new_authority(2) [OF ne ch, of "[]" P] u
  show "authority_host P h = Some h"
    by (auto split: option.splits)
qed

lemma URL_new_canonical:
  assumes "canonical_host P h" "\<forall>c \<in> set q. query_char c"
  shows "URL_new P (''https://'' @ h @ CHR ''?'' # q)
           = Inr \<lparr>url_host = h, searchParams = urlencoded_parse q\<rparr>"
  using URL_new_authority(1) [OF canonical_host_authority(1,2) [OF assms(1)] assms(2), of P]
    canonical_host_authority(3) [OF assms(1)]
  by simp

subsection \<open>Plain host names are canonical\<close>

lemma utf8_run_ascii:
  "\<forall>c \<in> set s. (of_char c :: nat) \<le> 0x7F \<Longrightarrow> utf8_run utf8_init s = s"
  by (induction s) (auto simp: utf8_step_def utf8_lead_def utf8_init_def Let_def)

lemma utf8_decode_ascii: "\<forall>c \<in> set s. (of_char c :: nat) \<le> 0x7F \<Longrightarrow> utf8_decode s = s"
  by (simp add: utf8_decode_def utf8_run_ascii)

lemma host_name_char_plain:
  "host_name_char c \<Longrightarrow>
     c \<noteq> CHR ''%'' \<and> c \<noteq> CHR ''@'' \<and> c \<noteq> CHR '':'' \<and> (of_char c :: nat) < 0x80
     \<and> ascii_lower c = c \<and> \<not> forbidden_domain c"
  by (auto simp: host_name_char_def ascii_lower_def forbidden_domain_def Let_def)

lemma percent_decode_plain: "CHR ''%'' \<notin> set s \<Longrightarrow> percent_decode s = s"
  by (induction s) auto

lemma after_last_at_plain: "CHR ''@'' \<notin> set s \<Longrightarrow> after_last_at buf s = rev buf @ s"
  by (induction s arbitrary: buf) auto

lemma host_state_plain: "CHR '':'' \<notin> set s \<Longrightarrow> host_state inside s = (s, None)"
  by (induction s arbitrary: inside) (auto simp: Let_def)

lemma host_name_parse:
  assumes ne: "h \<noteq> []" and ch: "\<forall>c \<in> set h. host_name_char c"
    and en: "\<not> ends_in_number h"
    and pl: "has_punycode_label h \<longrightarrow> ToASCII P h = Some h"
  shows "host_parse P h = Some h"
proof -
  have pd: "percent_decode h = h"
    using ch host_name_char_plain by (intro percent_decode_plain) blast
  have as: "\<forall>c \<in> set h. (of_char c :: nat) < 0x80"
    using ch host_name_char_plain by blast
  then have ud: "utf8_decode h = h"
    by (intro utf8_decode_ascii) fastforce
  have lo: "map ascii_lower h = h"
    using ch host_name_char_plain by (intro map_idI) blast
  have fb: "\<not> (\<exists>c \<in> set h. forbidden_domain c)"
    using ch host_name_char_plain by blast
  have da: "domain_to_ASCII P h = Some h"
    unfolding domain_to_ASCII_def lo using as pl ne fb by simp
  from ne ch have br: "hd h \<noteq> CHR ''[''"
    by (cases h) (auto simp: host_name_char_def)
  show ?thesis
    unfolding host_parse_def pd ud da using br en by simp
qed

lemma host_name_canonical:
  assumes ne: "h \<noteq> []" and ch: "\<forall>c \<in> set h. host_name_char c"
    and en: "\<not> ends_in_number h"
    and pl: "has_punycode_label h \<longrightarrow> ToASCII P h = Some h"
  shows "canonical_host P h"
proof -
  have at: "CHR ''@'' \<notin> set h" and co: "CHR '':'' \<notin> set h"
    using ch host_name_char_plain by blast+
  have au: "authority_host P h = Some h"
    unfolding authority_host_def
    by (simp add: after_last_at_plain [OF at] host_state_plain [OF co] ne at
          host_name_parse [OF ne ch en pl])
  have ac: "\<forall>c \<in> set h. authority_char c"
    using ch host_name_char_plain not_forbidden_authority_char by blast
  from URL_new_authority(2) [OF ne ac, of "[]" P] au
  show ?thesis by (simp add: canonical_host_def)
qed

lemma plain_host_canonical:
  assumes "plain_host h"
  shows "canonical_host P h"
  using assms by (intro host_name_canonical) (simp_all add: plain_host_def list_all_iff)

lemma punycode_host_canonical:
  assumes "ToASCII P ''xn--mnchen-3ya.de'' = Some ''xn--mnchen-3ya.de''"
  shows "canonical_host P ''xn--mnchen-3ya.de''"
proof -
  have ch: "list_all host_name_char ''xn--mnchen-3ya.de''"
    and en: "\<not> ends_in_number ''xn--mnchen-3ya.de''"
    by code_simp+
  show ?thesis
    using ch en assms by (intro host_name_canonical) (simp_all add: list_all_iff)
qed

subsection \<open>IPv6 literals the platform parses are canonical\<close>

lemma host_state_brackets:
  "\<forall>c \<in> set s. c \<noteq> CHR ''['' \<and> c \<noteq> CHR '']'' \<Longrightarrow>
   host_state True (s @ '']'') = (s @ '']'', None)"
  by (induction s) (auto simp: Let_def)

lemma alnum_not_bracket:
  "is_alnum c \<Longrightarrow> c \<noteq> CHR ''['' \<and> c \<noteq> CHR '']'' \<and> c \<noteq> CHR ''@''"
  by (auto simp: is_alnum_def Let_def)

lemma ipv6_host_canonical:
  assumes p: "ipv6_parser P s = Some a" and s: "ipv6_serialize a = s"
  shows "canonical_host P (CHR ''['' # s @ '']'')"
proof -
  let ?h = "CHR ''['' # s @ '']''"
  have sc: "\<forall>c \<in> set s. c = CHR '':'' \<or> is_alnum c"
    using ipv6_serialize_chars [of _ a] s by blast
  have nx: "c \<noteq> CHR ''['' \<and> c \<noteq> CHR '']'' \<and> c \<noteq> CHR ''@''" if "c \<in> set s" for c
  proof -
    from sc that have "c = CHR '':'' \<or> is_alnum c" by blast
    then show ?thesis using alnum_not_bracket [of c] by auto
  qed
  then have nb: "\<forall>c \<in> set s. c \<noteq> CHR ''['' \<and> c \<noteq> CHR '']''"
    and na: "\<forall>c \<in> set s. c \<noteq> CHR ''@''"
    by blast+
  have "authority_char c" if "c \<in> set s" for c
  proof -
    from sc that have "c = CHR '':'' \<or> is_alnum c" by blast
    then show ?thesis
      using punctuation_authority_char(1) alnum_authority_char [of c] by auto
  qed
  then have acs: "\<forall>c \<in> set s. authority_char c" ..
  have ac: "\<forall>c \<in> set ?h. authority_char c"
    using acs punctuation_authority_char(2,3) by simp
  have at: "CHR ''@'' \<notin> set ?h"
    using na by auto
  have hs: "host_state False ?h = (?h, None)"
    using host_state_brackets [OF nb] by (simp add: Let_def)
  have hp: "host_parse P ?h = Some ?h"
    using p s by (simp add: host_parse_def butlast_append)
  have au: "authority_host P ?h = Some ?h"
    unfolding authority_host_def after_last_at_plain [OF at]
    using at hs hp by simp
  have ne: "?h \<noteq> []" by simp
  from URL_new_authority(2) [OF ne ac, of "[]" P] au
  show ?thesis by (simp add: canonical_host_def)
qed

lemma ipv6_loopback_canonical:
  assumes "ipv6_parser P ''::1'' = Some [0, 0, 0, 0, 0, 0, 0, 1]"
  shows "canonical_host P ''[::1]''"
proof -
  have "ipv6_serialize [0, 0, 0, 0, 0, 0, 0, 1] = ''::1''"
    by code_simp
  from ipv6_host_canonical [OF assms this] show ?thesis by simp
qed

subsection \<open>Decoding the encoder's output\<close>

lemma utf8_decode_names:
  "utf8_decode ''owner'' = ''owner''" "utf8_decode ''repo'' = ''repo''"
  "utf8_decode ''organization'' = ''organization''" "utf8_decode ''workspace'' = ''workspace''"
  "utf8_decode ''project'' = ''project''"
  by (simp_all add: utf8_decode_ascii)

lemma field_ok_wellformed: "field_ok v \<Longrightarrow> wellformed v"
  by (simp add: field_ok_def)

lemma decoded_form_params:
  assumes "wellformed (owner fs)" "wellformed (repo fs)" "wellformed (organization fs)"
    "wellformed (workspace fs)" "wellformed (project fs)"
  shows "map (\<lambda>p. (utf8_decode (fst p), utf8_decode (snd p))) (form_params fs) = form_params fs"
  using assms
  by (auto simp: form_params_present wellformed_def truthy_def utf8_decode_names
           split: option.splits)

lemma get_form_params:
  "URLSearchParams_get (form_params fs) ''owner'' = (if truthy (owner fs) then owner fs else None)"
  "URLSearchParams_get (form_params fs) ''repo'' = (if truthy (repo fs) then repo fs else None)"
  "URLSearchParams_get (form_params fs) ''organization''
     = (if truthy (organization fs) then organization fs else None)"
  "URLSearchParams_get (form_params fs) ''workspace''
     = (if truthy (workspace fs) then workspace fs else None)"
  "URLSearchParams_get (form_params fs) ''project''
     = (if truthy (project fs) then project fs else None)"
  by (auto simp: form_params_present truthy_def split: option.splits)

lemma field_ok_truthy: "field_ok v \<Longrightarrow> (if truthy v then v else None) = v"
  by (auto simp: field_ok_def truthy_def split: option.splits)

lemma field_ok_js_or: "field_ok v \<Longrightarrow> js_or v None = v"
  by (auto simp: field_ok_def js_or_def truthy_def split: option.splits)

lemma js_or_backfill: "js_or (if truthy v then v else None) d = (if truthy v then v else d)"
  by (auto simp: js_or_def truthy_def)

lemma splitFormData_parsed:
  "s \<noteq> [] \<Longrightarrow> new_URL (''https://'' @ s) = Inr parsed \<Longrightarrow>
   splitFormData new_URL (Some s) allowedOwners =
     \<lparr>host = Some (url_host parsed),
      owner = js_or (URLSearchParams_get (searchParams parsed) ''owner'') (first_of allowedOwners),
      repo = js_or (URLSearchParams_get (searchParams parsed) ''repo'') None,
      organization = js_or (URLSearchParams_get (searchParams parsed) ''organization'') None,
      workspace = js_or (URLSearchParams_get (searchParams parsed) ''workspace'') None,
      project = js_or (URLSearchParams_get (searchParams parsed) ''project'') None\<rparr>"
  by (simp add: splitFormData_def truthy_def)

text \<open>
  C1, as amended. Take a FieldSet whose host is a string that the URL parser returns
  unchanged as the host of \<open>https://\<close> + host, whose owner is undefined or any string,
  and whose repo, organization, workspace and project are each undefined or a non-empty
  string (a string being a well-formed one, as every JavaScript string without lone
  surrogates is). Decoding the encoder's output with any allowed-owners list gives the
  same FieldSet, except that an undefined or empty owner becomes the first allowed owner
  (undefined when there is none). This holds on every platform.
\<close>

theorem decode_encode_round_trip:
  assumes "host fs = Some h" "canonical_host P h"
    and "wellformed (owner fs)" "field_ok (repo fs)" "field_ok (organization fs)"
    "field_ok (workspace fs)" "field_ok (project fs)"
  shows "splitFormData (URL_new P) (serializeFormData fs) allowedOwners
           = fs\<lparr>owner := (if truthy (owner fs) then owner fs else first_of allowedOwners)\<rparr>"
proof -
  let ?q = "URLSearchParams_toString (form_params fs)"
  have ne: "h \<noteq> []" using assms(2) by (rule canonical_host_authority(1))
  have ser: "serializeFormData fs = Some (h @ CHR ''?'' # ?q)"
    using assms(1) ne by (simp add: serializeFormData_def truthy_def)
  have "\<forall>c \<in> set ?q. query_char c"
    using query_char_toString by blast
  from URL_new_canonical [OF assms(2) this]
  have url: "URL_new P (''https://'' @ h @ CHR ''?'' # ?q)
               = Inr \<lparr>url_host = h, searchParams = form_params fs\<rparr>"
    by (simp add: urlencoded_parse_toString
          decoded_form_params [OF assms(3) assms(4-7) [THEN field_ok_wellformed]])
  have "h @ CHR ''?'' # ?q \<noteq> []" by simp
  from splitFormData_parsed [where new_URL = "URL_new P", OF this url]
  show ?thesis
    using assms(1)
    by (simp add: ser get_form_params js_or_backfill
          field_ok_truthy [OF assms(4)] field_ok_truthy [OF assms(5)]
          field_ok_truthy [OF assms(6)] field_ok_truthy [OF assms(7)]
          field_ok_js_or [OF assms(4)] field_ok_js_or [OF assms(5)]
          field_ok_js_or [OF assms(6)] field_ok_js_or [OF assms(7)] FieldSet.equality)
qed

theorem decode_encode_round_trip_witness:
  "\<forall>P. splitFormData (URL_new P)
          (serializeFormData \<lparr>host = Some ''github.com'', owner = Some [],
             repo = Some ''my widgets'', organization = None, workspace = None,
             project = Some ''a&b=c''\<rparr>) (Some [''acme''])
        = \<lparr>host = Some ''github.com'', owner = Some ''acme'', repo = Some ''my widgets'',
             organization = None, workspace = None, project = Some ''a&b=c''\<rparr> \<and>
        splitFormData (URL_new P)
          (serializeFormData \<lparr>host = Some ''dev.azure.com'', owner = Some ''bob'',
             repo = None, organization = Some ''org'', workspace = None,
             project = None\<rparr>) (Some [''acme''])
        = \<lparr>host = Some ''dev.azure.com'', owner = Some ''bob'', repo = None,
             organization = Some ''org'', workspace = None, project = None\<rparr>"
proof
  fix P
  have c: "canonical_host P ''github.com''" "canonical_host P ''dev.azure.com''"
    by code_simp+
  have w: "wellformed (Some [])" "wellformed (Some ''bob'')"
    by code_simp+
  have f: "field_ok None" "field_ok (Some ''my widgets'')" "field_ok (Some ''a&b=c'')"
    "field_ok (Some ''org'')"
    by code_simp+
  have a: "splitFormData (URL_new P)
          (serializeFormData \<lparr>host = Some ''github.com'', owner = Some [],
             repo = Some ''my widgets'', organization = None, workspace = None,
             project = Some ''a&b=c''\<rparr>) (Some [''acme''])
        = \<lparr>host = Some ''github.com'', owner = Some ''acme'', repo = Some ''my widgets'',
             organization = None, workspace = None, project = Some ''a&b=c''\<rparr>"
    using decode_encode_round_trip [of "\<lparr>host = Some ''github.com'', owner = Some [],
        repo = Some ''my widgets'', organization = None, workspace = None,
        project = Some ''a&b=c''\<rparr>" "''github.com''" P "Some [''acme'']"] c w f
    by (simp add: first_of_def truthy_def)
  have b: "splitFormData (URL_new P)
          (serializeFormData \<lparr>host = Some ''dev.azure.com'', owner = Some ''bob'',
             repo = None, organization = Some ''org'', workspace = None,
             project = None\<rparr>) (Some [''acme''])
        = \<lparr>host = Some ''dev.azure.com'', owner = Some ''bob'', repo = None,
             organization = Some ''org'', workspace = None, project = None\<rparr>"
    using decode_encode_round_trip [of "\<lparr>host = Some ''dev.azure.com'', owner = Some ''bob'',
        repo = None, organization = Some ''org'', workspace = None,
        project = None\<rparr>" "''dev.azure.com''" P "Some [''acme'']"] c w f
    by (simp add: truthy_def)
  show "splitFormData (URL_new P)
          (serializeFormData \<lparr>host = Some ''github.com'', owner = Some [],
             repo = Some ''my widgets'', organization = None, workspace = None,
             project = Some ''a&b=c''\<rparr>) (Some [''acme''])
        = \<lparr>host = Some ''github.com'', owner = Some ''acme'', repo = Some ''my widgets'',
             organization = None, workspace = None, project = Some ''a&b=c''\<rparr> \<and>
        splitFormData (URL_new P)
          (serializeFormData \<lparr>host = Some ''dev.azure.com'', owner = Some ''bob'',
             repo = None, organization = Some ''org'', workspace = None,
             project = None\<rparr>) (Some [''acme''])
        = \<lparr>host = Some ''dev.azure.com'', owner = Some ''bob'', repo = None,
             organization = Some ''org'', workspace = None, project = None\<rparr>"
    using a b by (rule conjI)
qed

text \<open>
  The claim as stated fails, on every platform, for a host with a path, which decodes to
  the host name alone, and for a repo that is the empty string, which decodes to
  undefined.
\<close>

theorem decode_encode_round_trip_counterexample:
  "\<forall>P. splitFormData (URL_new P)
          (serializeFormData \<lparr>host = Some ''bitbucket.org/server-variant'', owner = Some ''o'',
             repo = Some ''r'', organization = None, workspace = None, project = None\<rparr>) None
        = \<lparr>host = Some ''bitbucket.org'', owner = Some ''o'',
             repo = Some ''r'', organization = None, workspace = None, project = None\<rparr> \<and>
        splitFormData (URL_new P)
          (serializeFormData \<lparr>host = Some ''github.com'', owner = Some ''o'',
             repo = Some [], organization = None, workspace = None, project = None\<rparr>) None
        = \<lparr>host = Some ''github.com'', owner = Some ''o'',
             repo = None, organization = None, workspace = None, project = None\<rparr>"
proof
  fix P
  have s1: "serializeFormData \<lparr>host = Some ''bitbucket.org/server-variant'', owner = Some ''o'',
        repo = Some ''r'', organization = None, workspace = None, project = None\<rparr>
      = Some ''bitbucket.org/server-variant?owner=o&repo=r''"
    by code_simp
  have d1: "splitFormData (URL_new P) (Some ''bitbucket.org/server-variant?owner=o&repo=r'') None
      = \<lparr>host = Some ''bitbucket.org'', owner = Some ''o'',
        repo = Some ''r'', organization = None, workspace = None, project = None\<rparr>"
    by code_simp
  have s2: "serializeFormData \<lparr>host = Some ''github.com'', owner = Some ''o'',
        repo = Some [], organization = None, workspace = None, project = None\<rparr>
      = Some ''github.com?owner=o''"
    by code_simp
  have d2: "splitFormData (URL_new P) (Some ''github.com?owner=o'') None
      = \<lparr>host = Some ''github.com'', owner = Some ''o'',
        repo = None, organization = None, workspace = None, project = None\<rparr>"
    by code_simp
  show "splitFormData (URL_new P)
          (serializeFormData \<lparr>host = Some ''bitbucket.org/server-variant'', owner = Some ''o'',
             repo = Some ''r'', organization = None, workspace = None, project = None\<rparr>) None
        = \<lparr>host = Some ''bitbucket.org'', owner = Some ''o'',
             repo = Some ''r'', organization = None, workspace = None, project = None\<rparr> \<and>
        splitFormData (URL_new P)
          (serializeFormData \<lparr>host = Some ''github.com'', owner = Some ''o'',
             repo = Some [], organization = None, workspace = None, project = None\<rparr>) None
        = \<lparr>host = Some ''github.com'', owner = Some ''o'',
             repo = None, organization = None, workspace = None, project = None\<rparr>"
    unfolding s1 s2 using d1 d2 by (rule conjI)
qed

text \<open>
  C10, as amended. For a non-empty host \<open>h\<close> and no other field the encoder returns
  \<open>h?\<close>. When \<open>h\<close> is a string that the URL parser returns unchanged as the host of
  \<open>https://\<close> + \<open>h\<close>, decoding \<open>h?\<close> gives host \<open>h\<close>, the first allowed owner as owner
  (undefined without allowed owners), and every other field undefined.
\<close>

theorem bare_host_decoding:
  "(h \<noteq> [] \<longrightarrow>
      serializeFormData \<lparr>host = Some h, owner = None, repo = None, organization = None,
         workspace = None, project = None\<rparr> = Some (h @ ''?'')) \<and>
   (canonical_host P h \<longrightarrow>
      splitFormData (URL_new P) (Some (h @ ''?'')) allowedOwners
        = \<lparr>host = Some h, owner = first_of allowedOwners, repo = None, organization = None,
           workspace = None, project = None\<rparr>)"
proof (intro conjI impI)
  assume "h \<noteq> []"
  then show "serializeFormData \<lparr>host = Some h, owner = None, repo = None, organization = None,
         workspace = None, project = None\<rparr> = Some (h @ ''?'')"
    by (simp add: serializeFormData_def truthy_def form_params_def Let_def set_if_def
          URLSearchParams_toString_def)
next
  assume c: "canonical_host P h"
  have "URL_new P (''https://'' @ h @ CHR ''?'' # [])
          = Inr \<lparr>url_host = h, searchParams = urlencoded_parse []\<rparr>"
    by (rule URL_new_canonical [OF c]) simp
  then have url: "URL_new P (''https://'' @ (h @ ''?'')) = Inr \<lparr>url_host = h, searchParams = []\<rparr>"
    by (simp add: urlencoded_parse_def)
  have "h @ ''?'' \<noteq> []" by simp
  from splitFormData_parsed [where new_URL = "URL_new P", OF this url]
  show "splitFormData (URL_new P) (Some (h @ ''?'')) allowedOwners
        = \<lparr>host = Some h, owner = first_of allowedOwners, repo = None, organization = None,
           workspace = None, project = None\<rparr>"
    by (simp add: js_or_def truthy_def)
qed

theorem bare_host_decoding_witness:
  "\<forall>P. serializeFormData \<lparr>host = Some ''gitlab.example.com'', owner = None, repo = None,
           organization = None, workspace = None, project = None\<rparr>
          = Some ''gitlab.example.com?'' \<and>
        splitFormData (URL_new P) (Some ''gitlab.example.com?'') None
          = \<lparr>host = Some ''gitlab.example.com'', owner = None, repo = None,
             organization = None, workspace = None, project = None\<rparr>"
proof
  fix P
  have c: "canonical_host P ''gitlab.example.com''" by code_simp
  show "serializeFormData \<lparr>host = Some ''gitlab.example.com'', owner = None, repo = None,
           organization = None, workspace = None, project = None\<rparr>
          = Some ''gitlab.example.com?'' \<and>
        splitFormData (URL_new P) (Some ''gitlab.example.com?'') None
          = \<lparr>host = Some ''gitlab.example.com'', owner = None, repo = None,
             organization = None, workspace = None, project = None\<rparr>"
    using bare_host_decoding [of "''gitlab.example.com''" P None] c
    by (simp add: first_of_def)
qed

text \<open>
  The claim as stated fails, on every platform, for a host with upper-case letters: the
  decoded host is in lower case.
\<close>

theorem bare_host_decoding_counterexample:
  "\<forall>P. serializeFormData \<lparr>host = Some ''GitHub.com'', owner = None, repo = None,
           organization = None, workspace = None, project = None\<rparr> = Some ''GitHub.com?'' \<and>
        host (splitFormData (URL_new P) (Some ''GitHub.com?'') None) = Some ''github.com''"
proof
  fix P
  have s: "serializeFormData \<lparr>host = Some ''GitHub.com'', owner = None, repo = None,
      organization = None, workspace = None, project = None\<rparr> = Some ''GitHub.com?''"
    by code_simp
  have d: "splitFormData (URL_new P) (Some ''GitHub.com?'') None
      = \<lparr>host = Some ''github.com'', owner = None, repo = None, organization = None,
         workspace = None, project = None\<rparr>"
    by code_simp
  show "serializeFormData \<lparr>host = Some ''GitHub.com'', owner = None, repo = None,
           organization = None, workspace = None, project = None\<rparr> = Some ''GitHub.com?'' \<and>
        host (splitFormData (URL_new P) (Some ''GitHub.com?'') None) = Some ''github.com''"
    using s d by simp
qed

section \<open>Properties of the component\<close>

text \<open>
  C6, as amended. For a selected host of provider type \<open>azure\<close> the picker shows the host
  select and the repository input, the organization input exactly when the host is
  \<open>dev.azure.com\<close>, and an owner widget (the free-text input without allowed owners, the
  select with them); workspace and project are hidden.
\<close>

theorem render_azure:
  "truthy (host fs) \<Longrightarrow> type_byHost byHost (host fs) = Some ''azure'' \<Longrightarrow>
   set (RepoUrlPicker_render False byHost allowedOwners fs) =
     {HostSelect, RepositoryInput}
     \<union> (if host fs = Some ''dev.azure.com'' then {OrganizationInput} else {})
     \<union> (if allowedOwners = None then {OwnerInput} else {OwnerSelect})"
  by (auto simp: RepoUrlPicker_render_def)

theorem render_azure_witness:
  "set (RepoUrlPicker_render False [''dev.azure.com'' \<mapsto> \<lparr>scm_type = ''azure''\<rparr>] None
       \<lparr>host = Some ''dev.azure.com'', owner = None, repo = None, organization = None,
        workspace = None, project = None\<rparr>)
     = {HostSelect, RepositoryInput, OrganizationInput, OwnerInput}"
  using render_azure [of "\<lparr>host = Some ''dev.azure.com'', owner = None, repo = None,
        organization = None, workspace = None, project = None\<rparr>"
        "[''dev.azure.com'' \<mapsto> \<lparr>scm_type = ''azure''\<rparr>]" None]
  by (simp add: truthy_def type_byHost_def insert_commute)

text \<open>
  The claim as stated fails: for \<open>dev.azure.com\<close> of type \<open>azure\<close> the owner input is
  rendered.
\<close>

theorem render_azure_counterexample:
  "OwnerInput \<in> set (RepoUrlPicker_render False
       [''dev.azure.com'' \<mapsto> \<lparr>scm_type = ''azure''\<rparr>] None
       \<lparr>host = Some ''dev.azure.com'', owner = None, repo = None, organization = None,
        workspace = None, project = None\<rparr>)"
  by (simp add: RepoUrlPicker_render_def type_byHost_def truthy_def)

text \<open>
  C7. For a selected host of provider type \<open>bitbucket\<close> the project and repository
  inputs are shown, no owner widget is shown, and the workspace input is shown exactly
  when the host is \<open>bitbucket.org\<close>.
\<close>

theorem render_bitbucket:
  "truthy (host fs) \<Longrightarrow> type_byHost byHost (host fs) = Some ''bitbucket'' \<Longrightarrow>
   ProjectInput \<in> set (RepoUrlPicker_render False byHost allowedOwners fs) \<and>
   RepositoryInput \<in> set (RepoUrlPicker_render False byHost allowedOwners fs) \<and>
   OwnerInput \<notin> set (RepoUrlPicker_render False byHost allowedOwners fs) \<and>
   OwnerSelect \<notin> set (RepoUrlPicker_render False byHost allowedOwners fs) \<and>
   (WorkspaceInput \<in> set (RepoUrlPicker_render False byHost allowedOwners fs)
      \<longleftrightarrow> host fs = Some ''bitbucket.org'')"
  by (auto simp: RepoUrlPicker_render_def)

theorem render_bitbucket_witness:
  "WorkspaceInput \<in> set (RepoUrlPicker_render False [''bitbucket.org'' \<mapsto> \<lparr>scm_type = ''bitbucket''\<rparr>] None
       \<lparr>host = Some ''bitbucket.org'', owner = None, repo = None, organization = None,
        workspace = None, project = None\<rparr>) \<and>
   ProjectInput \<in> set (RepoUrlPicker_render False [''bitbucket.org'' \<mapsto> \<lparr>scm_type = ''bitbucket''\<rparr>] None
       \<lparr>host = Some ''bitbucket.org'', owner = None, repo = None, organization = None,
        workspace = None, project = None\<rparr>)"
  using render_bitbucket [of "\<lparr>host = Some ''bitbucket.org'', owner = None, repo = None,
        organization = None, workspace = None, project = None\<rparr>"
        "[''bitbucket.org'' \<mapsto> \<lparr>scm_type = ''bitbucket''\<rparr>]" None]
  by (simp add: truthy_def type_byHost_def)

lemma splitFormData_host_None:
  "host (splitFormData new_URL formData allowedOwners) = None \<Longrightarrow>
   splitFormData new_URL formData allowedOwners = all_absent"
  by (simp add: splitFormData_def all_absent_def split: if_splits sum.splits)

text \<open>
  C8, as amended. With an undefined decoded host and a non-empty integrations list the
  effect calls \<open>onChange\<close> once, with the encoder's result for the current fields and the
  first integration's host: when that host is non-empty, the host, a \<open>?\<close> and the
  non-empty current fields in the encoder's order; when it is the empty string,
  \<open>undefined\<close>. In the component an undefined decoded host means that every decoded
  field is undefined, so the emitted value is the host and a \<open>?\<close>. With a defined
  decoded host, or without integrations, the effect emits nothing.
\<close>

theorem default_host_effect_emits:
  "(host fs = None \<and> integrations = Some (i # rest) \<longrightarrow>
      default_host_effect integrations fs =
        [if ihost i = [] then None
         else Some (ihost i @ CHR ''?'' #
                URLSearchParams_toString
                  (map (\<lambda>(n, v). (n, the v))
                     (filter (\<lambda>(n, v). truthy v)
                        [(''owner'', owner fs), (''repo'', repo fs),
                         (''organization'', organization fs),
                         (''workspace'', workspace fs), (''project'', project fs)])))]) \<and>
   (host (splitFormData new_URL formData allowedOwners) = None \<and>
      integrations = Some (i # rest) \<longrightarrow>
      RepoUrlPicker_effect new_URL formData allowedOwners integrations =
        [if ihost i = [] then None else Some (ihost i @ ''?'')]) \<and>
   (host fs \<noteq> None \<longrightarrow> default_host_effect integrations fs = []) \<and>
   (host (splitFormData new_URL formData allowedOwners) \<noteq> None \<longrightarrow>
      RepoUrlPicker_effect new_URL formData allowedOwners integrations = []) \<and>
   (integrations = None \<or> integrations = Some [] \<longrightarrow>
      default_host_effect integrations fs = [])"
proof (intro conjI impI)
  assume a: "host fs = None \<and> integrations = Some (i # rest)"
  have "form_params \<lparr>host = Some (ihost i), owner = owner fs, repo = repo fs,
           organization = organization fs, workspace = workspace fs, project = project fs\<rparr>
        = map (\<lambda>(n, v). (n, the v))
            (filter (\<lambda>(n, v). truthy v)
               [(''owner'', owner fs), (''repo'', repo fs),
                (''organization'', organization fs),
                (''workspace'', workspace fs), (''project'', project fs)])"
    by (simp add: form_params_present)
  with a show "default_host_effect integrations fs =
        [if ihost i = [] then None
         else Some (ihost i @ CHR ''?'' #
                URLSearchParams_toString
                  (map (\<lambda>(n, v). (n, the v))
                     (filter (\<lambda>(n, v). truthy v)
                        [(''owner'', owner fs), (''repo'', repo fs),
                         (''organization'', organization fs),
                         (''workspace'', workspace fs), (''project'', project fs)])))]"
    by (simp add: default_host_effect_def serializeFormData_def truthy_def)
next
  assume a: "host (splitFormData new_URL formData allowedOwners) = None \<and>
      integrations = Some (i # rest)"
  then have "splitFormData new_URL formData allowedOwners = all_absent"
    by (simp add: splitFormData_host_None)
  with a show "RepoUrlPicker_effect new_URL formData allowedOwners integrations =
        [if ihost i = [] then None else Some (ihost i @ ''?'')]"
    by (simp add: RepoUrlPicker_effect_def default_host_effect_def all_absent_def
          serializeFormData_def truthy_def form_params_def Let_def set_if_def
          URLSearchParams_toString_def)
next
  assume "host fs \<noteq> None"
  then show "default_host_effect integrations fs = []"
    by (auto simp: default_host_effect_def)
next
  assume "host (splitFormData new_URL formData allowedOwners) \<noteq> None"
  then show "RepoUrlPicker_effect new_URL formData allowedOwners integrations = []"
    by (auto simp: RepoUrlPicker_effect_def default_host_effect_def)
next
  assume "integrations = None \<or> integrations = Some []"
  then show "default_host_effect integrations fs = []"
    by (auto simp: default_host_effect_def)
qed

theorem default_host_effect_emits_witness:
  "\<forall>P. default_host_effect
          (Some [\<lparr>ihost = ''gitlab.com'', title = ''GitLab''\<rparr>,
                 \<lparr>ihost = ''github.com'', title = ''GitHub''\<rparr>])
          \<lparr>host = None, owner = Some ''o'', repo = Some ''my repo'', organization = None,
           workspace = Some [], project = Some ''p''\<rparr>
          = [Some ''gitlab.com?owner=o&repo=my+repo&project=p''] \<and>
        RepoUrlPicker_effect (URL_new P) None (Some [''acme''])
          (Some [\<lparr>ihost = ''gitlab.com'', title = ''GitLab''\<rparr>]) = [Some ''gitlab.com?''] \<and>
        default_host_effect (Some [\<lparr>ihost = ''gitlab.com'', title = ''GitLab''\<rparr>])
          \<lparr>host = Some ''github.com'', owner = Some ''o'', repo = None, organization = None,
           workspace = None, project = None\<rparr> = [] \<and>
        RepoUrlPicker_effect (URL_new P) (Some ''github.com?owner=o'') None
          (Some [\<lparr>ihost = ''gitlab.com'', title = ''GitLab''\<rparr>]) = [] \<and>
        default_host_effect (Some [])
          \<lparr>host = None, owner = None, repo = None, organization = None,
           workspace = None, project = None\<rparr> = []"
proof
  fix P
  let ?gl = "\<lparr>ihost = ''gitlab.com'', title = ''GitLab''\<rparr>"
  let ?gh = "\<lparr>ihost = ''github.com'', title = ''GitHub''\<rparr>"
  let ?fs = "\<lparr>host = None, owner = Some ''o'', repo = Some ''my repo'', organization = None,
           workspace = Some [], project = Some ''p''\<rparr>"
  let ?fh = "\<lparr>host = Some ''github.com'', owner = Some ''o'', repo = None, organization = None,
           workspace = None, project = None\<rparr>"
  let ?fe = "\<lparr>host = None, owner = None, repo = None, organization = None,
           workspace = None, project = None\<rparr>"
  have e: "URLSearchParams_toString [(''owner'', ''o''), (''repo'', ''my repo''), (''project'', ''p'')]
             = ''owner=o&repo=my+repo&project=p''"
    by code_simp
  have a: "default_host_effect (Some [?gl, ?gh]) ?fs
             = [Some ''gitlab.com?owner=o&repo=my+repo&project=p'']"
    using e default_host_effect_emits [of ?fs "Some [?gl, ?gh]" ?gl "[?gh]"]
    by (simp add: truthy_def)
  have hn: "host (splitFormData (URL_new P) None (Some [''acme''])) = None"
    by (simp add: splitFormData_def truthy_def all_absent_def)
  have b: "RepoUrlPicker_effect (URL_new P) None (Some [''acme'']) (Some [?gl])
             = [Some ''gitlab.com?'']"
    using hn default_host_effect_emits [of _ "Some [?gl]" ?gl "[]" "URL_new P" None
              "Some [''acme'']"]
    by simp
  have c: "default_host_effect (Some [?gl]) ?fh = []"
    using default_host_effect_emits [of ?fh "Some [?gl]"] by simp
  have d0: "splitFormData (URL_new P) (Some ''github.com?owner=o'') None = ?fh"
    by code_simp
  have d: "RepoUrlPicker_effect (URL_new P) (Some ''github.com?owner=o'') None (Some [?gl]) = []"
    using default_host_effect_emits [of _ "Some [?gl]" _ _ "URL_new P"
              "Some ''github.com?owner=o''" None]
    by (simp add: d0)
  have f: "default_host_effect (Some []) ?fe = []"
    using default_host_effect_emits [of ?fe "Some []"] by simp
  show "default_host_effect (Some [?gl, ?gh]) ?fs
          = [Some ''gitlab.com?owner=o&repo=my+repo&project=p''] \<and>
        RepoUrlPicker_effect (URL_new P) None (Some [''acme'']) (Some [?gl])
          = [Some ''gitlab.com?''] \<and>
        default_host_effect (Some [?gl]) ?fh = [] \<and>
        RepoUrlPicker_effect (URL_new P) (Some ''github.com?owner=o'') None (Some [?gl]) = [] \<and>
        default_host_effect (Some []) ?fe = []"
    using a b c d f by (intro conjI)
qed

text \<open>
  The claim as stated fails when the first integration's host is the empty string: the
  effect fires, but what it passes to \<open>onChange\<close> is \<open>undefined\<close>, not a serialized
  value with that host.
\<close>

theorem default_host_effect_counterexample:
  "\<forall>new_URL. RepoUrlPicker_effect new_URL None None
      (Some [\<lparr>ihost = [], title = ''GitHub''\<rparr>]) = [None]"
  by (simp add: RepoUrlPicker_effect_def default_host_effect_def splitFormData_def
        all_absent_def serializeFormData_def truthy_def)

lemma onBlur_guard:
  "(fst (onBlur withCredentials getCredentials setSecret fs secrets) \<noteq> [] \<longleftrightarrow>
      withCredentials \<noteq> None \<and> truthy (host fs) \<and> truthy (owner fs) \<and> truthy (repo fs)) \<and>
   (withCredentials = Some key \<and> host fs = Some h \<and> owner fs = Some ow \<and> repo fs = Some r \<and>
      h \<noteq> [] \<and> ow \<noteq> [] \<and> r \<noteq> [] \<longrightarrow>
      fst (onBlur withCredentials getCredentials setSecret fs secrets)
        = [''https://'' @ h @ ''/'' @ ow @ ''/'' @ r] \<and>
      (\<forall>token. getCredentials (''https://'' @ h @ ''/'' @ ow @ ''/'' @ r) = Inr token \<longrightarrow>
         snd (onBlur withCredentials getCredentials setSecret fs secrets)
           = setSecret (key, token) secrets)) \<and>
   (\<not> (withCredentials \<noteq> None \<and> truthy (host fs) \<and> truthy (owner fs) \<and> truthy (repo fs)) \<longrightarrow>
      onBlur withCredentials getCredentials setSecret fs secrets = ([], secrets))"
  by (auto simp: onBlur_def credentials_url_def truthy_def
           split: option.splits sum.splits)

lemma updateHost_runs_onBlur:
  "snd (updateHost withCredentials getCredentials setSecret fs v secrets)
     = onBlur withCredentials getCredentials setSecret fs secrets"
  by (simp add: updateHost_def)

text \<open>
  C9. On blur the guard and the request are as the claim says. On a host change they are
  not: \<open>updateHost\<close> passes the new host to \<open>onChange\<close> and then calls \<open>onBlur\<close>, whose
  \<open>host\<close> is still the one decoded at the last render. With \<open>github.com\<close>, \<open>acme\<close> and
  \<open>widgets\<close> decoded and \<open>gitlab.com\<close> selected, the value passed to \<open>onChange\<close> names
  \<open>gitlab.com\<close>, while the token is requested for \<open>https://github.com/acme/widgets\<close> and
  stored under the configured key.
\<close>

theorem updateHost_stale_host:
  "updateHost (Some ''TOKEN'') (\<lambda>u. (Inr (''token for '' @ u) :: unit + string))
     (\<lambda>(k, t) m. m(k \<mapsto> t))
     \<lparr>host = Some ''github.com'', owner = Some ''acme'', repo = Some ''widgets'',
      organization = None, workspace = None, project = None\<rparr> ''gitlab.com'' Map.empty
   = (Some ''gitlab.com?owner=acme&repo=widgets'',
      [''https://github.com/acme/widgets''],
      [''TOKEN'' \<mapsto> ''token for https://github.com/acme/widgets''])"
proof -
  have s: "serializeFormData \<lparr>host = Some ''gitlab.com'', owner = Some ''acme'',
      repo = Some ''widgets'', organization = None, workspace = None, project = None\<rparr>
      = Some ''gitlab.com?owner=acme&repo=widgets''"
    by code_simp
  show ?thesis
    by (simp add: updateHost_def s onBlur_def credentials_url_def truthy_def)
qed

end
